theory Spec2Isabelle
  imports Complex_Main "HOL-Library.Word"
begin

section \<open>Sim Agents submission specs: data model\<close>

text \<open>
  A shallow embedding of \<^verbatim>\<open>waymo_open_dataset/utils/sim_agents/submission_specs.py\<close>.
  Python exceptions are values of the type \<open>error\<close>; a function that can raise returns
  \<open>error + 'a\<close>, with \<open>Inl\<close> for the exception.
\<close>

subsection \<open>The challenge type\<close>

text \<open>
  \<^verbatim>\<open>class ChallengeType(enum.Enum)\<close> has two members. Python does not check the type
  of an argument, so a \<^verbatim>\<open>challenge_type\<close> parameter is either a member of the enum or
  some other object, which is kept by its \<^verbatim>\<open>repr\<close>: the functions below reach
  their final \<^verbatim>\<open>else\<close> branch on such an object only.
\<close>

datatype ChallengeType = SIM_AGENTS | SCENARIO_GEN

datatype challenge_arg = Member ChallengeType | Non_member string

fun repr :: "challenge_arg \<Rightarrow> string" where
  "repr (Member SIM_AGENTS) = ''<ChallengeType.SIM_AGENTS: 'sim_agents'>''"
| "repr (Member SCENARIO_GEN) = ''<ChallengeType.SCENARIO_GEN: 'scenario_gen'>''"
| "repr (Non_member r) = r"

subsection \<open>Exceptions\<close>

text \<open>
  Every \<^verbatim>\<open>raise\<close> of the module raises \<^verbatim>\<open>ValueError\<close> with a formatted message;
  the message is kept as the format that produced it together with the values formatted
  into it. Indexing a repeated field out of range raises \<^verbatim>\<open>IndexError\<close>, tagged here
  with the name of the field that was indexed; \<^verbatim>\<open>getattr\<close> with a name that is not a
  field raises \<^verbatim>\<open>AttributeError\<close>.
\<close>

datatype message =
    Unknown_challenge_type string
  | Invalid_tensor_length string int int
  | Not_a_sim_agent int
  | Sim_agents_missing "int set" "int list"
  | Missing_scenario_id_field
  | Incorrect_number_of_parallel_simulations int int

datatype error = ValueError message | IndexError string | AttributeError string

subsection \<open>Floats\<close>

text \<open>
  A Python float is an IEEE 754 double, kept as its 64 bits; the \<^verbatim>\<open>repeated float\<close>
  fields of a trajectory hold single-precision values, kept as their 32 bits. The module
  never computes with either. The literal \<^verbatim>\<open>0.1\<close> denotes the double nearest to one
  tenth, whose bits are \<^verbatim>\<open>0x3FB999999999999A\<close>.
\<close>

type_synonym float64 = "64 word"
type_synonym float32 = "32 word"

definition float_literal_0_1 :: float64 where
  "float_literal_0_1 = 0x3FB999999999999A"

text \<open>
  The value of a finite double, from its sign bit, its eleven exponent bits and its 52
  fraction bits; infinities and NaNs have none.
\<close>

definition float64_value :: "float64 \<Rightarrow> rat option" where
  "float64_value w =
     (let n = unat w;
          negative = (n div 2 ^ 63 = 1);
          exponent = (n div 2 ^ 52) mod 2 ^ 11;
          fraction = n mod 2 ^ 52;
          magnitude =
            (if exponent = 0 then of_nat fraction / 2 ^ 1074
             else if exponent < 1075 then of_nat (2 ^ 52 + fraction) / 2 ^ (1075 - exponent)
             else of_nat (2 ^ 52 + fraction) * 2 ^ (exponent - 1075))
      in if exponent = 2047 then None
         else Some (if negative then - magnitude else magnitude))"

subsection \<open>Protos and the submission config\<close>

text \<open>Only the fields the module reads are modelled.\<close>

record ObjectState =
  valid :: bool

record Track =
  id' :: int
  states :: "ObjectState list"

record RequiredPrediction =
  track_index :: int

record Scenario =
  tracks :: "Track list"
  sdc_track_index :: int
  tracks_to_predict :: "RequiredPrediction list"

record SimulatedTrajectory =
  center_x :: "float32 list"
  center_y :: "float32 list"
  center_z :: "float32 list"
  heading :: "float32 list"
  object_id :: int

record JointScene =
  simulated_trajectories :: "SimulatedTrajectory list"

text \<open>\<^verbatim>\<open>HasField('scenario_id')\<close> is whether the optional field is set.\<close>

record ScenarioRollouts =
  scenario_id :: "string option"
  joint_scenes :: "JointScene list"

record SubmissionConfig =
  current_time_index :: int
  n_simulation_steps :: int
  n_rollouts :: int
  step_duration_seconds :: float64

section \<open>Operations\<close>

subsection \<open>Indexing and attribute access\<close>

text \<open>
  \<^verbatim>\<open>xs[i]\<close> on a repeated field: a negative index counts from the end, an index out
  of range raises \<^verbatim>\<open>IndexError\<close>.
\<close>

definition getitem :: "string \<Rightarrow> 'a list \<Rightarrow> int \<Rightarrow> error + 'a" where
  "getitem name xs i =
     (if 0 \<le> i \<and> i < int (length xs) then Inr (xs ! nat i)
      else if i < 0 \<and> - int (length xs) \<le> i then Inr (xs ! nat (int (length xs) + i))
      else Inl (IndexError name))"

definition getattr :: "SimulatedTrajectory \<Rightarrow> string \<Rightarrow> error + float32 list" where
  "getattr trajectory field_name =
     (if field_name = ''center_x'' then Inr (center_x trajectory)
      else if field_name = ''center_y'' then Inr (center_y trajectory)
      else if field_name = ''center_z'' then Inr (center_z trajectory)
      else if field_name = ''heading'' then Inr (heading trajectory)
      else Inl (AttributeError field_name))"

subsection \<open>Submission configs\<close>

definition is_valid_sim_agent :: "SubmissionConfig \<Rightarrow> Track \<Rightarrow> error + bool" where
  "is_valid_sim_agent self track =
     (case getitem ''states'' (states track) (current_time_index self) of
        Inl e \<Rightarrow> Inl e
      | Inr state \<Rightarrow> Inr (valid state))"

definition SIM_AGENTS_SUBMISSION_CONFIG :: SubmissionConfig where
  "SIM_AGENTS_SUBMISSION_CONFIG =
     \<lparr>current_time_index = 10, n_simulation_steps = 80, n_rollouts = 32,
      step_duration_seconds = float_literal_0_1\<rparr>"

definition SCENARIO_GEN_SUBMISSION_CONFIG :: SubmissionConfig where
  "SCENARIO_GEN_SUBMISSION_CONFIG =
     \<lparr>current_time_index = 10, n_simulation_steps = 91, n_rollouts = 32,
      step_duration_seconds = float_literal_0_1\<rparr>"

definition get_submission_config :: "challenge_arg \<Rightarrow> error + SubmissionConfig" where
  "get_submission_config challenge_type =
     (if challenge_type = Member SIM_AGENTS then Inr SIM_AGENTS_SUBMISSION_CONFIG
      else if challenge_type = Member SCENARIO_GEN then Inr SCENARIO_GEN_SUBMISSION_CONFIG
      else Inl (ValueError (Unknown_challenge_type (repr challenge_type))))"

subsection \<open>Sim agent ids\<close>

text \<open>The \<^verbatim>\<open>for track in scenario.tracks\<close> loop, with \<^verbatim>\<open>object_ids\<close> as accumulator.\<close>

fun sim_agent_ids_loop ::
  "SubmissionConfig \<Rightarrow> Track list \<Rightarrow> int list \<Rightarrow> error + int list" where
  "sim_agent_ids_loop config [] object_ids = Inr object_ids"
| "sim_agent_ids_loop config (track # rest) object_ids =
     (case is_valid_sim_agent config track of
        Inl e \<Rightarrow> Inl e
      | Inr b \<Rightarrow>
          sim_agent_ids_loop config rest
            (if b then object_ids @ [id' track] else object_ids))"

definition get_sim_agent_ids :: "Scenario \<Rightarrow> challenge_arg \<Rightarrow> error + int list" where
  "get_sim_agent_ids scenario challenge_type =
     (case get_submission_config challenge_type of
        Inl e \<Rightarrow> Inl e
      | Inr config \<Rightarrow> sim_agent_ids_loop config (tracks scenario) [])"

text \<open>
  The \<^verbatim>\<open>for required_prediction in scenario.tracks_to_predict\<close> loop, adding to the
  set \<^verbatim>\<open>object_ids\<close>.
\<close>

fun add_tracks_to_predict ::
  "Scenario \<Rightarrow> RequiredPrediction list \<Rightarrow> int set \<Rightarrow> error + int set" where
  "add_tracks_to_predict scenario [] object_ids = Inr object_ids"
| "add_tracks_to_predict scenario (required_prediction # rest) object_ids =
     (case getitem ''tracks'' (tracks scenario) (track_index required_prediction) of
        Inl e \<Rightarrow> Inl e
      | Inr track \<Rightarrow> add_tracks_to_predict scenario rest (insert (id' track) object_ids))"

definition get_evaluation_sim_agent_ids ::
  "Scenario \<Rightarrow> challenge_arg \<Rightarrow> error + int list" where
  "get_evaluation_sim_agent_ids scenario challenge_type =
     (if challenge_type = Member SIM_AGENTS then
        (case getitem ''tracks'' (tracks scenario) (sdc_track_index scenario) of
           Inl e \<Rightarrow> Inl e
         | Inr av \<Rightarrow>
             (case add_tracks_to_predict scenario (tracks_to_predict scenario) {id' av} of
                Inl e \<Rightarrow> Inl e
              | Inr object_ids \<Rightarrow> Inr (sorted_list_of_set object_ids)))
      else if challenge_type = Member SCENARIO_GEN then
        get_sim_agent_ids scenario challenge_type
      else Inl (ValueError (Unknown_challenge_type (repr challenge_type))))"

subsection \<open>Validation\<close>

definition raise_if_wrong_length ::
  "SimulatedTrajectory \<Rightarrow> string \<Rightarrow> int \<Rightarrow> error + unit" where
  "raise_if_wrong_length trajectory field_name expected_length =
     (case getattr trajectory field_name of
        Inl e \<Rightarrow> Inl e
      | Inr field \<Rightarrow>
          if int (length field) \<noteq> expected_length
          then Inl (ValueError
                 (Invalid_tensor_length field_name (int (length field)) expected_length))
          else Inr ())"

text \<open>
  The \<^verbatim>\<open>for simulated_trajectory in joint_scene.simulated_trajectories\<close> loop, with
  \<^verbatim>\<open>simulated_ids\<close> as accumulator.
\<close>

fun simulated_trajectories_loop ::
  "SubmissionConfig \<Rightarrow> int list \<Rightarrow> SimulatedTrajectory list \<Rightarrow> int list
     \<Rightarrow> error + int list" where
  "simulated_trajectories_loop config sim_agent_ids [] simulated_ids = Inr simulated_ids"
| "simulated_trajectories_loop config sim_agent_ids (simulated_trajectory # rest)
       simulated_ids =
     (case raise_if_wrong_length simulated_trajectory ''center_x''
             (n_simulation_steps config) of
        Inl e \<Rightarrow> Inl e
      | Inr _ \<Rightarrow>
     (case raise_if_wrong_length simulated_trajectory ''center_y''
             (n_simulation_steps config) of
        Inl e \<Rightarrow> Inl e
      | Inr _ \<Rightarrow>
     (case raise_if_wrong_length simulated_trajectory ''center_z''
             (n_simulation_steps config) of
        Inl e \<Rightarrow> Inl e
      | Inr _ \<Rightarrow>
     (case raise_if_wrong_length simulated_trajectory ''heading''
             (n_simulation_steps config) of
        Inl e \<Rightarrow> Inl e
      | Inr _ \<Rightarrow>
          if object_id simulated_trajectory \<notin> set sim_agent_ids
          then Inl (ValueError (Not_a_sim_agent (object_id simulated_trajectory)))
          else simulated_trajectories_loop config sim_agent_ids rest
                 (simulated_ids @ [object_id simulated_trajectory])))))"

definition validate_joint_scene ::
  "JointScene \<Rightarrow> Scenario \<Rightarrow> challenge_arg \<Rightarrow> error + unit" where
  "validate_joint_scene joint_scene original_scenario challenge_type =
     (case get_submission_config challenge_type of
        Inl e \<Rightarrow> Inl e
      | Inr config \<Rightarrow>
     (case get_sim_agent_ids original_scenario challenge_type of
        Inl e \<Rightarrow> Inl e
      | Inr sim_agent_ids \<Rightarrow>
     (case simulated_trajectories_loop config sim_agent_ids
             (simulated_trajectories joint_scene) [] of
        Inl e \<Rightarrow> Inl e
      | Inr simulated_ids \<Rightarrow>
          (let missing_agents = set sim_agent_ids - set simulated_ids
           in if missing_agents \<noteq> {}
              then Inl (ValueError (Sim_agents_missing missing_agents simulated_ids))
              else Inr ()))))"

text \<open>The \<^verbatim>\<open>for joint_scene in scenario_rollouts.joint_scenes\<close> loop.\<close>

fun joint_scenes_loop :: "JointScene list \<Rightarrow> Scenario \<Rightarrow> challenge_arg \<Rightarrow> error + unit" where
  "joint_scenes_loop [] original_scenario challenge_type = Inr ()"
| "joint_scenes_loop (joint_scene # rest) original_scenario challenge_type =
     (case validate_joint_scene joint_scene original_scenario challenge_type of
        Inl e \<Rightarrow> Inl e
      | Inr _ \<Rightarrow> joint_scenes_loop rest original_scenario challenge_type)"

definition validate_scenario_rollouts ::
  "ScenarioRollouts \<Rightarrow> Scenario \<Rightarrow> challenge_arg \<Rightarrow> error + unit" where
  "validate_scenario_rollouts scenario_rollouts original_scenario challenge_type =
     (case get_submission_config challenge_type of
        Inl e \<Rightarrow> Inl e
      | Inr config \<Rightarrow>
          if scenario_id scenario_rollouts = None
          then Inl (ValueError Missing_scenario_id_field)
          else if int (length (joint_scenes scenario_rollouts)) \<noteq> n_rollouts config
          then Inl (ValueError
                 (Incorrect_number_of_parallel_simulations
                    (int (length (joint_scenes scenario_rollouts))) (n_rollouts config)))
          else joint_scenes_loop (joint_scenes scenario_rollouts) original_scenario
                 challenge_type)"

subsection \<open>The module's globals\<close>

text \<open>
  \<^verbatim>\<open>_SIM_AGENTS_SUBMISSION_CONFIG\<close> and \<^verbatim>\<open>_SCENARIO_GEN_SUBMISSION_CONFIG\<close> are
  names bound in the module when it is imported, and \<^verbatim>\<open>get_submission_config\<close>
  reads them when it is called. The functions below are the functions above with these
  bindings as state: each takes the globals and returns them with its result. They read
  a config where the functions above name the constant, and are otherwise the same
  statements in the same order. \<open>module_import\<close> is the state the module body leaves.
  A \<open>call\<close> is a call of one of the module's functions by a client, and \<open>run\<close>
  makes a list of calls one after the other.
\<close>

record module_globals =
  sim_agents_submission_config :: SubmissionConfig
  scenario_gen_submission_config :: SubmissionConfig

definition module_import :: module_globals where
  "module_import =
     \<lparr>sim_agents_submission_config = SIM_AGENTS_SUBMISSION_CONFIG,
      scenario_gen_submission_config = SCENARIO_GEN_SUBMISSION_CONFIG\<rparr>"

definition get_submission_config_st ::
  "challenge_arg \<Rightarrow> module_globals \<Rightarrow> (error + SubmissionConfig) \<times> module_globals" where
  "get_submission_config_st challenge_type g =
     (if challenge_type = Member SIM_AGENTS then (Inr (sim_agents_submission_config g), g)
      else if challenge_type = Member SCENARIO_GEN
      then (Inr (scenario_gen_submission_config g), g)
      else (Inl (ValueError (Unknown_challenge_type (repr challenge_type))), g))"

definition get_sim_agent_ids_st ::
  "Scenario \<Rightarrow> challenge_arg \<Rightarrow> module_globals \<Rightarrow> (error + int list) \<times> module_globals" where
  "get_sim_agent_ids_st scenario challenge_type g =
     (case get_submission_config_st challenge_type g of
        (Inl e, g') \<Rightarrow> (Inl e, g')
      | (Inr config, g') \<Rightarrow> (sim_agent_ids_loop config (tracks scenario) [], g'))"

definition get_evaluation_sim_agent_ids_st ::
  "Scenario \<Rightarrow> challenge_arg \<Rightarrow> module_globals \<Rightarrow> (error + int list) \<times> module_globals" where
  "get_evaluation_sim_agent_ids_st scenario challenge_type g =
     (if challenge_type = Member SIM_AGENTS then
        ((case getitem ''tracks'' (tracks scenario) (sdc_track_index scenario) of
            Inl e \<Rightarrow> Inl e
          | Inr av \<Rightarrow>
              (case add_tracks_to_predict scenario (tracks_to_predict scenario) {id' av} of
                 Inl e \<Rightarrow> Inl e
               | Inr object_ids \<Rightarrow> Inr (sorted_list_of_set object_ids))), g)
      else if challenge_type = Member SCENARIO_GEN then
        get_sim_agent_ids_st scenario challenge_type g
      else (Inl (ValueError (Unknown_challenge_type (repr challenge_type))), g))"

definition validate_joint_scene_st ::
  "JointScene \<Rightarrow> Scenario \<Rightarrow> challenge_arg \<Rightarrow> module_globals
     \<Rightarrow> (error + unit) \<times> module_globals" where
  "validate_joint_scene_st joint_scene original_scenario challenge_type g =
     (case get_submission_config_st challenge_type g of
        (Inl e, g1) \<Rightarrow> (Inl e, g1)
      | (Inr config, g1) \<Rightarrow>
     (case get_sim_agent_ids_st original_scenario challenge_type g1 of
        (Inl e, g2) \<Rightarrow> (Inl e, g2)
      | (Inr sim_agent_ids, g2) \<Rightarrow>
     (case simulated_trajectories_loop config sim_agent_ids
             (simulated_trajectories joint_scene) [] of
        Inl e \<Rightarrow> (Inl e, g2)
      | Inr simulated_ids \<Rightarrow>
          (let missing_agents = set sim_agent_ids - set simulated_ids
           in if missing_agents \<noteq> {}
              then (Inl (ValueError (Sim_agents_missing missing_agents simulated_ids)), g2)
              else (Inr (), g2)))))"

fun joint_scenes_loop_st ::
  "JointScene list \<Rightarrow> Scenario \<Rightarrow> challenge_arg \<Rightarrow> module_globals
     \<Rightarrow> (error + unit) \<times> module_globals" where
  "joint_scenes_loop_st [] original_scenario challenge_type g = (Inr (), g)"
| "joint_scenes_loop_st (joint_scene # rest) original_scenario challenge_type g =
     (case validate_joint_scene_st joint_scene original_scenario challenge_type g of
        (Inl e, g') \<Rightarrow> (Inl e, g')
      | (Inr _, g') \<Rightarrow> joint_scenes_loop_st rest original_scenario challenge_type g')"

definition validate_scenario_rollouts_st ::
  "ScenarioRollouts \<Rightarrow> Scenario \<Rightarrow> challenge_arg \<Rightarrow> module_globals
     \<Rightarrow> (error + unit) \<times> module_globals" where
  "validate_scenario_rollouts_st scenario_rollouts original_scenario challenge_type g =
     (case get_submission_config_st challenge_type g of
        (Inl e, g') \<Rightarrow> (Inl e, g')
      | (Inr config, g') \<Rightarrow>
          if scenario_id scenario_rollouts = None
          then (Inl (ValueError Missing_scenario_id_field), g')
          else if int (length (joint_scenes scenario_rollouts)) \<noteq> n_rollouts config
          then (Inl (ValueError
                  (Incorrect_number_of_parallel_simulations
                     (int (length (joint_scenes scenario_rollouts))) (n_rollouts config))), g')
          else joint_scenes_loop_st (joint_scenes scenario_rollouts) original_scenario
                 challenge_type g')"

datatype call =
    Call_get_submission_config challenge_arg
  | Call_get_sim_agent_ids Scenario challenge_arg
  | Call_get_evaluation_sim_agent_ids Scenario challenge_arg
  | Call_validate_joint_scene JointScene Scenario challenge_arg
  | Call_validate_scenario_rollouts ScenarioRollouts Scenario challenge_arg

datatype returned = Config SubmissionConfig | Ids "int list" | Nothing

fun exec :: "call \<Rightarrow> module_globals \<Rightarrow> (error + returned) \<times> module_globals" where
  "exec (Call_get_submission_config challenge_type) g =
     (case get_submission_config_st challenge_type g of
        (r, g') \<Rightarrow> (map_sum id Config r, g'))"
| "exec (Call_get_sim_agent_ids scenario challenge_type) g =
     (case get_sim_agent_ids_st scenario challenge_type g of
        (r, g') \<Rightarrow> (map_sum id Ids r, g'))"
| "exec (Call_get_evaluation_sim_agent_ids scenario challenge_type) g =
     (case get_evaluation_sim_agent_ids_st scenario challenge_type g of
        (r, g') \<Rightarrow> (map_sum id Ids r, g'))"
| "exec (Call_validate_joint_scene joint_scene scenario challenge_type) g =
     (case validate_joint_scene_st joint_scene scenario challenge_type g of
        (r, g') \<Rightarrow> (map_sum id (\<lambda>_. Nothing) r, g'))"
| "exec (Call_validate_scenario_rollouts scenario_rollouts scenario challenge_type) g =
     (case validate_scenario_rollouts_st scenario_rollouts scenario challenge_type g of
        (r, g') \<Rightarrow> (map_sum id (\<lambda>_. Nothing) r, g'))"

fun run :: "call list \<Rightarrow> module_globals \<Rightarrow> (error + returned) list \<times> module_globals" where
  "run [] g = ([], g)"
| "run (c # cs) g =
     (case exec c g of
        (r, g') \<Rightarrow> (case run cs g' of (rs, g'') \<Rightarrow> (r # rs, g'')))"

section \<open>Example data\<close>

text \<open>
  A track with eleven states, valid at the first ten steps; \<open>v\<close> is the flag of the
  state at index 10.
\<close>

definition example_track :: "int \<Rightarrow> bool \<Rightarrow> Track" where
  "example_track i v =
     \<lparr>id' = i, states = replicate 10 \<lparr>valid = True\<rparr> @ [\<lparr>valid = v\<rparr>]\<rparr>"

text \<open>
  Three tracks, with ids 7, 3 and 5; the last one is not valid at index 10. The first
  track is the autonomous vehicle; tracks 1 and 0 are to be predicted.
\<close>

definition example_scenario :: Scenario where
  "example_scenario =
     \<lparr>tracks = [example_track 7 True, example_track 3 True, example_track 5 False],
      sdc_track_index = 0,
      tracks_to_predict = [\<lparr>track_index = 1\<rparr>, \<lparr>track_index = 0\<rparr>]\<rparr>"

text \<open>The same tracks, with the track that is not valid at index 10 to be predicted.\<close>

definition example_scenario_invalid_prediction :: Scenario where
  "example_scenario_invalid_prediction =
     \<lparr>tracks = [example_track 7 True, example_track 3 True, example_track 5 False],
      sdc_track_index = 0,
      tracks_to_predict = [\<lparr>track_index = 2\<rparr>]\<rparr>"

text \<open>A scenario whose only track has three states.\<close>

definition example_scenario_short_track :: Scenario where
  "example_scenario_short_track =
     \<lparr>tracks = [\<lparr>id' = 7, states = replicate 3 \<lparr>valid = True\<rparr>\<rparr>],
      sdc_track_index = 0,
      tracks_to_predict = []\<rparr>"

text \<open>A trajectory for object \<open>i\<close> with \<open>n\<close> steps in each field.\<close>

definition example_trajectory :: "int \<Rightarrow> nat \<Rightarrow> SimulatedTrajectory" where
  "example_trajectory i n =
     \<lparr>center_x = replicate n 0, center_y = replicate n 0, center_z = replicate n 0,
      heading = replicate n 0, object_id = i\<rparr>"

definition example_joint_scene :: JointScene where
  "example_joint_scene =
     \<lparr>simulated_trajectories = [example_trajectory 7 80, example_trajectory 3 80]\<rparr>"

text \<open>Object 7 is simulated twice.\<close>

definition example_joint_scene_duplicate :: JointScene where
  "example_joint_scene_duplicate =
     \<lparr>simulated_trajectories =
        [example_trajectory 7 80, example_trajectory 3 80, example_trajectory 7 80]\<rparr>"

text \<open>The second trajectory has 79 steps in \<^verbatim>\<open>center_y\<close>.\<close>

definition example_joint_scene_short_field :: JointScene where
  "example_joint_scene_short_field =
     \<lparr>simulated_trajectories =
        [example_trajectory 7 80, (example_trajectory 3 80)\<lparr>center_y := replicate 79 0\<rparr>,
         example_trajectory 9 80]\<rparr>"

text \<open>Object 3 is missing.\<close>

definition example_joint_scene_missing :: JointScene where
  "example_joint_scene_missing = \<lparr>simulated_trajectories = [example_trajectory 7 80]\<rparr>"

definition example_rollouts :: "nat \<Rightarrow> ScenarioRollouts" where
  "example_rollouts n =
     \<lparr>scenario_id = Some ''abc'', joint_scenes = replicate n example_joint_scene\<rparr>"

lemmas example_defs =
  example_track_def example_scenario_def example_scenario_invalid_prediction_def
  example_scenario_short_track_def example_trajectory_def example_joint_scene_def
  example_joint_scene_duplicate_def example_joint_scene_short_field_def
  example_joint_scene_missing_def example_rollouts_def

section \<open>Indexing\<close>

lemma getitem_in_range:
  "0 \<le> i \<Longrightarrow> i < int (length xs) \<Longrightarrow> getitem name xs i = Inr (xs ! nat i)"
  by (simp add: getitem_def)

lemma getitem_beyond:
  "int (length xs) \<le> i \<Longrightarrow> getitem name xs i = Inl (IndexError name)"
  by (simp add: getitem_def Let_def)

lemma getitem_Inl:
  "getitem name xs i = Inl e \<Longrightarrow> e = IndexError name"
  by (auto simp: getitem_def Let_def split: if_splits)

lemma nth_nat_mem: "0 \<le> i \<Longrightarrow> i < int (length xs) \<Longrightarrow> xs ! nat i \<in> set xs"
  by (simp add: nat_less_iff)

section \<open>The submission config lookup\<close>

lemma float64_value_0_1:
  "float64_value 0x3FB999999999999A = Some (3602879701896397 / 2 ^ 55)"
  by (simp add: float64_value_def Let_def)

lemma float64_value_known:
  "float64_value 0 = Some 0"
  "float64_value 0x3FF0000000000000 = Some 1"
  "float64_value 0x3FE0000000000000 = Some (1 / 2)"
  "float64_value 0xC000000000000000 = Some (- 2)"
  "float64_value 0x4024000000000000 = Some 10"
  "float64_value 0x7FF0000000000000 = None"
  by (simp_all add: float64_value_def Let_def)

lemma get_submission_config_SIM_AGENTS:
  "get_submission_config (Member SIM_AGENTS) = Inr SIM_AGENTS_SUBMISSION_CONFIG"
  by (simp add: get_submission_config_def)

lemma get_submission_config_SCENARIO_GEN:
  "get_submission_config (Member SCENARIO_GEN) = Inr SCENARIO_GEN_SUBMISSION_CONFIG"
  by (simp add: get_submission_config_def)

lemma get_submission_config_Member:
  "get_submission_config (Member p) = Inr config \<Longrightarrow> current_time_index config = 10"
  by (cases p) (auto simp: get_submission_config_def SIM_AGENTS_SUBMISSION_CONFIG_def
        SCENARIO_GEN_SUBMISSION_CONFIG_def)

lemma get_submission_config_n_rollouts:
  "get_submission_config (Member p) = Inr config \<Longrightarrow> n_rollouts config = 32"
  by (cases p) (auto simp: get_submission_config_def SIM_AGENTS_SUBMISSION_CONFIG_def
        SCENARIO_GEN_SUBMISSION_CONFIG_def)

lemma get_submission_config_total:
  "\<exists>config. get_submission_config (Member p) = Inr config"
  by (cases p) (auto simp: get_submission_config_def)

section \<open>Sim agent ids\<close>

lemma is_valid_sim_agent_in_range:
  "0 \<le> current_time_index config \<Longrightarrow>
   current_time_index config < int (length (states track)) \<Longrightarrow>
   is_valid_sim_agent config track =
     Inr (valid (states track ! nat (current_time_index config)))"
  by (simp add: is_valid_sim_agent_def getitem_in_range)

lemma is_valid_sim_agent_beyond:
  "int (length (states track)) \<le> current_time_index config \<Longrightarrow>
   is_valid_sim_agent config track = Inl (IndexError ''states'')"
  by (simp add: is_valid_sim_agent_def getitem_beyond)

lemma sim_agent_ids_loop_in_range:
  "0 \<le> current_time_index config \<Longrightarrow>
   \<forall>track\<in>set ts. current_time_index config < int (length (states track)) \<Longrightarrow>
   sim_agent_ids_loop config ts object_ids =
     Inr (object_ids @
          map id' (filter (\<lambda>track. valid (states track ! nat (current_time_index config))) ts))"
  by (induction ts arbitrary: object_ids) (simp_all add: is_valid_sim_agent_in_range)

lemma sim_agent_ids_loop_beyond:
  "0 \<le> current_time_index config \<Longrightarrow>
   \<exists>track\<in>set ts. int (length (states track)) \<le> current_time_index config \<Longrightarrow>
   sim_agent_ids_loop config ts object_ids = Inl (IndexError ''states'')"
proof (induction ts arbitrary: object_ids)
  case Nil
  then show ?case by simp
next
  case (Cons t ts)
  show ?case
  proof (cases "int (length (states t)) \<le> current_time_index config")
    case True
    then show ?thesis by (simp add: is_valid_sim_agent_beyond)
  next
    case False
    with Cons.prems
    have "\<exists>track\<in>set ts. int (length (states track)) \<le> current_time_index config"
      by auto
    with Cons.IH Cons.prems(1) False show ?thesis
      by (simp add: is_valid_sim_agent_in_range)
  qed
qed

lemma get_sim_agent_ids_in_range:
  assumes "\<forall>track\<in>set (tracks scenario). 10 < int (length (states track))"
  shows "get_sim_agent_ids scenario (Member p) =
     Inr (map id' (filter (\<lambda>track. valid (states track ! 10)) (tracks scenario)))"
proof -
  obtain config where c: "get_submission_config (Member p) = Inr config"
    using get_submission_config_total by blast
  then have "current_time_index config = 10" by (rule get_submission_config_Member)
  with c assms show ?thesis
    using sim_agent_ids_loop_in_range [of config "tracks scenario" "[]"]
    by (simp add: get_sim_agent_ids_def)
qed

lemma get_sim_agent_ids_beyond:
  assumes "\<exists>track\<in>set (tracks scenario). int (length (states track)) \<le> 10"
  shows "get_sim_agent_ids scenario (Member p) = Inl (IndexError ''states'')"
proof -
  obtain config where c: "get_submission_config (Member p) = Inr config"
    using get_submission_config_total by blast
  then have "current_time_index config = 10" by (rule get_submission_config_Member)
  with c assms show ?thesis
    using sim_agent_ids_loop_beyond [of config "tracks scenario" "[]"]
    by (simp add: get_sim_agent_ids_def)
qed

lemma example_scenario_states:
  "\<forall>track\<in>set (tracks example_scenario). 10 < int (length (states track))"
  by (simp add: example_defs)

lemma example_scenario_sim_agent_ids:
  "get_sim_agent_ids example_scenario (Member p) = Inr [7, 3]"
  by (simp add: get_sim_agent_ids_in_range [OF example_scenario_states])
     (simp add: example_defs nth_append)

text \<open>
  Claim C3. For a scenario whose tracks all have a state at the current time index,
  and for each of the two challenge types, \<^verbatim>\<open>get_sim_agent_ids\<close> returns the ids
  of the tracks whose state at \<^verbatim>\<open>current_time_index\<close> is valid, in the order of the
  tracks, and without duplicates when the track ids are unique.
  \<^verbatim>\<open>is_valid_sim_agent\<close> returns the valid flag of that state, and is the same
  function for the configs of both challenge types.
\<close>

theorem get_sim_agent_ids_valid_at_current_time:
  assumes "get_submission_config (Member p) = Inr config"
    and "\<forall>track\<in>set (tracks scenario). current_time_index config < int (length (states track))"
  shows "get_sim_agent_ids scenario (Member p) =
           Inr (map id' (filter (\<lambda>track. valid (states track ! nat (current_time_index config)))
                  (tracks scenario)))
         \<and> (distinct (map id' (tracks scenario)) \<longrightarrow>
              (\<forall>ids. get_sim_agent_ids scenario (Member p) = Inr ids \<longrightarrow> distinct ids))
         \<and> (\<forall>track\<in>set (tracks scenario).
              is_valid_sim_agent config track =
                Inr (valid (states track ! nat (current_time_index config))))
         \<and> is_valid_sim_agent SIM_AGENTS_SUBMISSION_CONFIG track =
             is_valid_sim_agent SCENARIO_GEN_SUBMISSION_CONFIG track"
proof -
  have cti: "current_time_index config = 10"
    using assms(1) by (rule get_submission_config_Member)
  have ids: "get_sim_agent_ids scenario (Member p) =
           Inr (map id' (filter (\<lambda>track. valid (states track ! nat (current_time_index config)))
                  (tracks scenario)))"
    using assms cti by (simp add: get_sim_agent_ids_def sim_agent_ids_loop_in_range)
  have each: "\<forall>track\<in>set (tracks scenario).
              is_valid_sim_agent config track =
                Inr (valid (states track ! nat (current_time_index config)))"
    using assms(2) cti by (simp add: is_valid_sim_agent_in_range)
  have same: "is_valid_sim_agent SIM_AGENTS_SUBMISSION_CONFIG track =
             is_valid_sim_agent SCENARIO_GEN_SUBMISSION_CONFIG track"
    by (simp add: is_valid_sim_agent_def SIM_AGENTS_SUBMISSION_CONFIG_def
          SCENARIO_GEN_SUBMISSION_CONFIG_def)
  show ?thesis using ids each same by (simp add: distinct_map_filter)
qed

theorem get_sim_agent_ids_valid_at_current_time_witness:
  "get_submission_config (Member SIM_AGENTS) = Inr SIM_AGENTS_SUBMISSION_CONFIG
   \<and> list_all
         (\<lambda>track. current_time_index SIM_AGENTS_SUBMISSION_CONFIG < int (length (states track)))
         (tracks example_scenario)
   \<and> distinct (map id' (tracks example_scenario))
   \<and> get_sim_agent_ids example_scenario (Member SIM_AGENTS) = Inr [7, 3]
   \<and> is_valid_sim_agent SIM_AGENTS_SUBMISSION_CONFIG (example_track 5 False) = Inr False"
proof -
  have config: "get_submission_config (Member SIM_AGENTS) = Inr SIM_AGENTS_SUBMISSION_CONFIG"
    by (rule get_submission_config_SIM_AGENTS)
  have len: "\<forall>track\<in>set (tracks example_scenario).
         current_time_index SIM_AGENTS_SUBMISSION_CONFIG < int (length (states track))"
    by (simp add: example_defs SIM_AGENTS_SUBMISSION_CONFIG_def)
  from len have len': "list_all
         (\<lambda>track. current_time_index SIM_AGENTS_SUBMISSION_CONFIG < int (length (states track)))
         (tracks example_scenario)"
    by (simp add: list_all_iff)
  have d: "distinct (map id' (tracks example_scenario))"
    by (simp add: example_defs)
  note spec = get_sim_agent_ids_valid_at_current_time [OF config len]
  from spec [THEN conjunct1]
  have ids: "get_sim_agent_ids example_scenario (Member SIM_AGENTS) = Inr [7, 3]"
    by (simp add: example_defs SIM_AGENTS_SUBMISSION_CONFIG_def nth_append)
  from spec [THEN conjunct2, THEN conjunct2, THEN conjunct1]
  have "is_valid_sim_agent SIM_AGENTS_SUBMISSION_CONFIG (example_track 5 False) = Inr False"
    by (simp add: example_defs SIM_AGENTS_SUBMISSION_CONFIG_def nth_append)
  with config len' d ids show ?thesis by blast
qed

section \<open>Evaluated sim agent ids\<close>

lemma add_tracks_to_predict_in_range:
  "\<forall>rp\<in>set rps. 0 \<le> track_index rp \<and> track_index rp < int (length (tracks scenario)) \<Longrightarrow>
   add_tracks_to_predict scenario rps object_ids =
     Inr (object_ids \<union> (\<lambda>rp. id' (tracks scenario ! nat (track_index rp))) ` set rps)"
  by (induction rps arbitrary: object_ids) (simp_all add: getitem_in_range)

lemma add_tracks_to_predict_Inl:
  "add_tracks_to_predict scenario rps object_ids = Inl e \<Longrightarrow> e = IndexError ''tracks''"
  by (induction rps arbitrary: object_ids) (auto split: sum.splits dest: getitem_Inl)

lemma get_evaluation_sim_agent_ids_in_range:
  assumes "0 \<le> sdc_track_index scenario"
    and "sdc_track_index scenario < int (length (tracks scenario))"
    and "\<forall>rp\<in>set (tracks_to_predict scenario).
           0 \<le> track_index rp \<and> track_index rp < int (length (tracks scenario))"
  shows "get_evaluation_sim_agent_ids scenario (Member SIM_AGENTS) =
     Inr (sorted_list_of_set
            (insert (id' (tracks scenario ! nat (sdc_track_index scenario)))
               ((\<lambda>rp. id' (tracks scenario ! nat (track_index rp)))
                  ` set (tracks_to_predict scenario))))"
  using assms
  by (simp add: get_evaluation_sim_agent_ids_def getitem_in_range
        add_tracks_to_predict_in_range)

lemma get_evaluation_sim_agent_ids_Inl:
  "get_evaluation_sim_agent_ids scenario (Member SIM_AGENTS) = Inl e \<Longrightarrow>
   e = IndexError ''tracks''"
  by (auto simp: get_evaluation_sim_agent_ids_def split: sum.splits
        dest: getitem_Inl add_tracks_to_predict_Inl)

lemma sorted_list_of_set_3_7: "sorted_list_of_set {3, 7 :: int} = [3, 7]"
  by simp

lemma sorted_list_of_set_5_7: "sorted_list_of_set {5, 7 :: int} = [5, 7]"
  by simp

lemma example_scenario_indices:
  "0 \<le> sdc_track_index example_scenario"
  "sdc_track_index example_scenario < int (length (tracks example_scenario))"
  "\<forall>rp\<in>set (tracks_to_predict example_scenario).
      0 \<le> track_index rp \<and> track_index rp < int (length (tracks example_scenario))"
  by (simp_all add: example_defs)

text \<open>
  Claim C4. For a scenario whose \<^verbatim>\<open>sdc_track_index\<close> and \<^verbatim>\<open>tracks_to_predict\<close>
  indices are indices of tracks, \<^verbatim>\<open>get_evaluation_sim_agent_ids\<close> for
  \<^verbatim>\<open>SIM_AGENTS\<close> returns the union of the id of the track at \<^verbatim>\<open>sdc_track_index\<close>
  and the ids of the tracks at the \<^verbatim>\<open>track_index\<close> of each entry of
  \<^verbatim>\<open>tracks_to_predict\<close>, as a list in ascending order without duplicates.
\<close>

theorem get_evaluation_sim_agent_ids_sorted_union:
  assumes "0 \<le> sdc_track_index scenario"
    and "sdc_track_index scenario < int (length (tracks scenario))"
    and "\<forall>rp\<in>set (tracks_to_predict scenario).
           0 \<le> track_index rp \<and> track_index rp < int (length (tracks scenario))"
  shows "\<exists>ids. get_evaluation_sim_agent_ids scenario (Member SIM_AGENTS) = Inr ids
     \<and> set ids = {id' (tracks scenario ! nat (sdc_track_index scenario))}
                 \<union> {id' (tracks scenario ! nat (track_index rp)) | rp.
                      rp \<in> set (tracks_to_predict scenario)}
     \<and> sorted ids \<and> distinct ids
     \<and> ids = sorted_list_of_set
               ({id' (tracks scenario ! nat (sdc_track_index scenario))}
                 \<union> {id' (tracks scenario ! nat (track_index rp)) | rp.
                      rp \<in> set (tracks_to_predict scenario)})"
proof -
  let ?S = "insert (id' (tracks scenario ! nat (sdc_track_index scenario)))
               ((\<lambda>rp. id' (tracks scenario ! nat (track_index rp)))
                  ` set (tracks_to_predict scenario))"
  have S: "{id' (tracks scenario ! nat (sdc_track_index scenario))}
                 \<union> {id' (tracks scenario ! nat (track_index rp)) | rp.
                      rp \<in> set (tracks_to_predict scenario)} = ?S"
    by auto
  have fin: "finite ?S" by simp
  have "get_evaluation_sim_agent_ids scenario (Member SIM_AGENTS) =
          Inr (sorted_list_of_set ?S)"
    using assms by (rule get_evaluation_sim_agent_ids_in_range)
  moreover have "set (sorted_list_of_set ?S) = ?S"
    using fin by (rule set_sorted_list_of_set)
  moreover have "sorted (sorted_list_of_set ?S)"
    by (rule sorted_sorted_list_of_set)
  moreover have "distinct (sorted_list_of_set ?S)"
    by (rule distinct_sorted_list_of_set)
  ultimately show ?thesis unfolding S by blast
qed

theorem get_evaluation_sim_agent_ids_sorted_union_witness:
  "0 \<le> sdc_track_index example_scenario
   \<and> sdc_track_index example_scenario < int (length (tracks example_scenario))
   \<and> list_all
         (\<lambda>rp. 0 \<le> track_index rp \<and> track_index rp < int (length (tracks example_scenario)))
         (tracks_to_predict example_scenario)
   \<and> get_evaluation_sim_agent_ids example_scenario (Member SIM_AGENTS) = Inr [3, 7]"
proof -
  from get_evaluation_sim_agent_ids_sorted_union [OF example_scenario_indices]
  obtain ids where
    r: "get_evaluation_sim_agent_ids example_scenario (Member SIM_AGENTS) = Inr ids"
    and ids: "ids = sorted_list_of_set
               ({id' (tracks example_scenario ! nat (sdc_track_index example_scenario))}
                 \<union> {id' (tracks example_scenario ! nat (track_index rp)) | rp.
                      rp \<in> set (tracks_to_predict example_scenario)})"
    by blast
  have S: "{id' (tracks example_scenario ! nat (sdc_track_index example_scenario))}
                 \<union> {id' (tracks example_scenario ! nat (track_index rp)) | rp.
                      rp \<in> set (tracks_to_predict example_scenario)} = {3, 7}"
    by (simp add: Setcompr_eq_image) (auto simp: example_defs)
  have "ids = [3, 7]"
    unfolding ids S by (rule sorted_list_of_set_3_7)
  with r have "get_evaluation_sim_agent_ids example_scenario (Member SIM_AGENTS) = Inr [3, 7]"
    by simp
  with example_scenario_indices show ?thesis by (simp add: list_all_iff)
qed

text \<open>
  Claim C5, as stated: for every scenario the evaluated ids for \<^verbatim>\<open>SIM_AGENTS\<close>
  are among the sim agent ids. The module does not check that a track to be predicted
  is valid at the current time index: in the scenario below track 5 is not, and is
  evaluated without being a sim agent.
\<close>

theorem get_evaluation_sim_agent_ids_subset_counterexample:
  "get_evaluation_sim_agent_ids example_scenario_invalid_prediction (Member SIM_AGENTS)
     = Inr [5, 7]
   \<and> get_sim_agent_ids example_scenario_invalid_prediction (Member SIM_AGENTS) = Inr [7, 3]
   \<and> \<not> set [5, 7 :: int] \<subseteq> set [7, 3]"
proof -
  have "get_evaluation_sim_agent_ids example_scenario_invalid_prediction (Member SIM_AGENTS)
     = Inr (sorted_list_of_set {5, 7})"
    by (simp add: get_evaluation_sim_agent_ids_def getitem_def example_defs insert_commute)
  moreover
  have "get_sim_agent_ids example_scenario_invalid_prediction (Member SIM_AGENTS) = Inr [7, 3]"
    by (simp add: get_sim_agent_ids_def get_submission_config_def
          SIM_AGENTS_SUBMISSION_CONFIG_def is_valid_sim_agent_def getitem_def example_defs
          nth_append)
  ultimately show ?thesis by (simp add: sorted_list_of_set_5_7)
qed

text \<open>
  Claim C5, amended. For a scenario whose indices are indices of tracks and whose
  tracks all have a state at index 10, the evaluated ids for \<^verbatim>\<open>SIM_AGENTS\<close> contain
  the id of the track at \<^verbatim>\<open>sdc_track_index\<close>. They are among the sim agent ids if
  that track and every track to be predicted are valid at index 10, and, when the
  track ids are unique, only if they are.
\<close>

theorem get_evaluation_sim_agent_ids_subset_if_valid:
  assumes sdc: "0 \<le> sdc_track_index scenario"
      "sdc_track_index scenario < int (length (tracks scenario))"
    and rps: "\<forall>rp\<in>set (tracks_to_predict scenario).
           0 \<le> track_index rp \<and> track_index rp < int (length (tracks scenario))"
    and len: "\<forall>track\<in>set (tracks scenario). 10 < int (length (states track))"
  shows "\<exists>evaluated simulated.
       get_evaluation_sim_agent_ids scenario (Member SIM_AGENTS) = Inr evaluated
     \<and> get_sim_agent_ids scenario (Member SIM_AGENTS) = Inr simulated
     \<and> id' (tracks scenario ! nat (sdc_track_index scenario)) \<in> set evaluated
     \<and> (valid (states (tracks scenario ! nat (sdc_track_index scenario)) ! 10)
        \<and> (\<forall>rp\<in>set (tracks_to_predict scenario).
              valid (states (tracks scenario ! nat (track_index rp)) ! 10))
        \<longrightarrow> set evaluated \<subseteq> set simulated)
     \<and> (distinct (map id' (tracks scenario)) \<and> set evaluated \<subseteq> set simulated
        \<longrightarrow> valid (states (tracks scenario ! nat (sdc_track_index scenario)) ! 10)
          \<and> (\<forall>rp\<in>set (tracks_to_predict scenario).
                valid (states (tracks scenario ! nat (track_index rp)) ! 10)))"
proof -
  let ?ts = "tracks scenario"
  let ?av = "?ts ! nat (sdc_track_index scenario)"
  let ?ref = "\<lambda>rp. ?ts ! nat (track_index rp)"
  let ?S = "insert (id' ?av) ((\<lambda>rp. id' (?ref rp)) ` set (tracks_to_predict scenario))"
  let ?sim = "map id' (filter (\<lambda>track. valid (states track ! 10)) ?ts)"
  have ev: "get_evaluation_sim_agent_ids scenario (Member SIM_AGENTS) =
          Inr (sorted_list_of_set ?S)"
    using sdc rps by (rule get_evaluation_sim_agent_ids_in_range)
  have sim: "get_sim_agent_ids scenario (Member SIM_AGENTS) = Inr ?sim"
    using len by (rule get_sim_agent_ids_in_range)
  have set_ev: "set (sorted_list_of_set ?S) = ?S"
    by (rule set_sorted_list_of_set) simp
  have av_mem: "?av \<in> set ?ts"
    using sdc by (rule nth_nat_mem)
  have ref_mem: "?ref rp \<in> set ?ts" if "rp \<in> set (tracks_to_predict scenario)" for rp
    using rps that by (blast intro: nth_nat_mem)
  have sub: "?S \<subseteq> set ?sim"
    if "valid (states ?av ! 10)"
      and "\<forall>rp\<in>set (tracks_to_predict scenario). valid (states (?ref rp) ! 10)"
    using that av_mem ref_mem by auto
  have valid_of_mem: "valid (states t ! 10)"
    if d: "distinct (map id' ?ts)" and t: "t \<in> set ?ts" and m: "id' t \<in> set ?sim" for t
  proof -
    from m obtain t' where t': "t' \<in> set ?ts" "valid (states t' ! 10)" "id' t' = id' t"
      by auto
    from d have "inj_on id' (set ?ts)" by (simp add: distinct_map)
    with t t' have "t' = t" by (auto dest: inj_onD)
    with t' show ?thesis by simp
  qed
  have conv: "valid (states ?av ! 10)
        \<and> (\<forall>rp\<in>set (tracks_to_predict scenario). valid (states (?ref rp) ! 10))"
    if d: "distinct (map id' ?ts)" and s: "?S \<subseteq> set ?sim"
  proof (intro conjI ballI)
    from s have "id' ?av \<in> set ?sim" by blast
    with d av_mem show "valid (states ?av ! 10)" by (rule valid_of_mem)
  next
    fix rp assume rp: "rp \<in> set (tracks_to_predict scenario)"
    with s have "id' (?ref rp) \<in> set ?sim" by blast
    with d ref_mem [OF rp] show "valid (states (?ref rp) ! 10)" by (rule valid_of_mem)
  qed
  show ?thesis
    unfolding ev sim
    using sub conv by (simp only: sum.inject simp_thms ex_simps set_ev) blast
qed

theorem get_evaluation_sim_agent_ids_subset_if_valid_witness:
  "0 \<le> sdc_track_index example_scenario
   \<and> sdc_track_index example_scenario < int (length (tracks example_scenario))
   \<and> list_all
         (\<lambda>rp. 0 \<le> track_index rp \<and> track_index rp < int (length (tracks example_scenario)))
         (tracks_to_predict example_scenario)
   \<and> list_all (\<lambda>track. 10 < int (length (states track))) (tracks example_scenario)
   \<and> valid (states (tracks example_scenario ! nat (sdc_track_index example_scenario)) ! 10)
   \<and> list_all (\<lambda>rp. valid (states (tracks example_scenario ! nat (track_index rp)) ! 10))
         (tracks_to_predict example_scenario)
   \<and> (\<exists>evaluated simulated.
         get_evaluation_sim_agent_ids example_scenario (Member SIM_AGENTS) = Inr evaluated
       \<and> get_sim_agent_ids example_scenario (Member SIM_AGENTS) = Inr simulated
       \<and> 7 \<in> set evaluated \<and> set evaluated \<subseteq> set simulated)"
proof -
  have av: "valid (states (tracks example_scenario ! nat (sdc_track_index example_scenario)) ! 10)"
    by (simp add: example_defs nth_append)
  have refs: "\<forall>rp\<in>set (tracks_to_predict example_scenario).
         valid (states (tracks example_scenario ! nat (track_index rp)) ! 10)"
    by (simp add: example_defs nth_append)
  have id7: "id' (tracks example_scenario ! nat (sdc_track_index example_scenario)) = 7"
    by (simp add: example_defs)
  from get_evaluation_sim_agent_ids_subset_if_valid
         [OF example_scenario_indices example_scenario_states] av refs
  have "\<exists>evaluated simulated.
         get_evaluation_sim_agent_ids example_scenario (Member SIM_AGENTS) = Inr evaluated
       \<and> get_sim_agent_ids example_scenario (Member SIM_AGENTS) = Inr simulated
       \<and> 7 \<in> set evaluated \<and> set evaluated \<subseteq> set simulated"
    unfolding id7 by blast
  with example_scenario_indices example_scenario_states av refs show ?thesis
    unfolding list_all_iff by blast
qed

text \<open>
  Claim C6. For \<^verbatim>\<open>SCENARIO_GEN\<close>, \<^verbatim>\<open>get_evaluation_sim_agent_ids\<close> is
  \<^verbatim>\<open>get_sim_agent_ids\<close>: the same ids in the same order (and the same exception, if
  any), whatever \<^verbatim>\<open>sdc_track_index\<close> and \<^verbatim>\<open>tracks_to_predict\<close> hold.
\<close>

theorem get_evaluation_sim_agent_ids_scenario_gen:
  "get_evaluation_sim_agent_ids scenario (Member SCENARIO_GEN) =
     get_sim_agent_ids scenario (Member SCENARIO_GEN)
   \<and> get_evaluation_sim_agent_ids
       (scenario\<lparr>sdc_track_index := sdc, tracks_to_predict := required_predictions\<rparr>)
       (Member SCENARIO_GEN) =
     get_sim_agent_ids scenario (Member SCENARIO_GEN)"
  by (simp add: get_evaluation_sim_agent_ids_def get_sim_agent_ids_def split: sum.splits)

theorem get_evaluation_sim_agent_ids_scenario_gen_witness:
  "get_evaluation_sim_agent_ids example_scenario (Member SCENARIO_GEN) = Inr [7, 3]
   \<and> get_evaluation_sim_agent_ids
       (example_scenario\<lparr>sdc_track_index := 5, tracks_to_predict := []\<rparr>)
       (Member SCENARIO_GEN) = Inr [7, 3]"
  using get_evaluation_sim_agent_ids_scenario_gen
          [where scenario = example_scenario and sdc = 5 and required_predictions = "[]"]
  by (simp add: example_scenario_sim_agent_ids)

section \<open>Validation of a joint scene\<close>

lemma raise_if_wrong_length_center_x:
  "raise_if_wrong_length t ''center_x'' n =
     (if int (length (center_x t)) \<noteq> n
      then Inl (ValueError (Invalid_tensor_length ''center_x'' (int (length (center_x t))) n))
      else Inr ())"
  by (simp add: raise_if_wrong_length_def getattr_def)

lemma raise_if_wrong_length_center_y:
  "raise_if_wrong_length t ''center_y'' n =
     (if int (length (center_y t)) \<noteq> n
      then Inl (ValueError (Invalid_tensor_length ''center_y'' (int (length (center_y t))) n))
      else Inr ())"
  by (simp add: raise_if_wrong_length_def getattr_def)

lemma raise_if_wrong_length_center_z:
  "raise_if_wrong_length t ''center_z'' n =
     (if int (length (center_z t)) \<noteq> n
      then Inl (ValueError (Invalid_tensor_length ''center_z'' (int (length (center_z t))) n))
      else Inr ())"
  by (simp add: raise_if_wrong_length_def getattr_def)

lemma raise_if_wrong_length_heading:
  "raise_if_wrong_length t ''heading'' n =
     (if int (length (heading t)) \<noteq> n
      then Inl (ValueError (Invalid_tensor_length ''heading'' (int (length (heading t))) n))
      else Inr ())"
  by (simp add: raise_if_wrong_length_def getattr_def)

lemmas raise_if_wrong_length_fields =
  raise_if_wrong_length_center_x raise_if_wrong_length_center_y
  raise_if_wrong_length_center_z raise_if_wrong_length_heading

text \<open>One pass of the loop body, by the first check that fails.\<close>

lemma simulated_trajectories_loop_step:
  "simulated_trajectories_loop config ids (t # rest) acc =
     (if int (length (center_x t)) \<noteq> n_simulation_steps config
      then Inl (ValueError (Invalid_tensor_length ''center_x'' (int (length (center_x t)))
                  (n_simulation_steps config)))
      else if int (length (center_y t)) \<noteq> n_simulation_steps config
      then Inl (ValueError (Invalid_tensor_length ''center_y'' (int (length (center_y t)))
                  (n_simulation_steps config)))
      else if int (length (center_z t)) \<noteq> n_simulation_steps config
      then Inl (ValueError (Invalid_tensor_length ''center_z'' (int (length (center_z t)))
                  (n_simulation_steps config)))
      else if int (length (heading t)) \<noteq> n_simulation_steps config
      then Inl (ValueError (Invalid_tensor_length ''heading'' (int (length (heading t)))
                  (n_simulation_steps config)))
      else if object_id t \<notin> set ids
      then Inl (ValueError (Not_a_sim_agent (object_id t)))
      else simulated_trajectories_loop config ids rest (acc @ [object_id t]))"
  by (simp add: raise_if_wrong_length_fields)

lemma simulated_trajectories_loop_prefix:
  "\<forall>u\<in>set pre.
      int (length (center_x u)) = n_simulation_steps config
    \<and> int (length (center_y u)) = n_simulation_steps config
    \<and> int (length (center_z u)) = n_simulation_steps config
    \<and> int (length (heading u)) = n_simulation_steps config
    \<and> object_id u \<in> set ids \<Longrightarrow>
   simulated_trajectories_loop config ids (pre @ rest) acc =
     simulated_trajectories_loop config ids rest (acc @ map object_id pre)"
proof (induction pre arbitrary: acc)
  case Nil
  then show ?case by simp
next
  case (Cons u pre)
  then show ?case
    by (simp only: append_Cons simulated_trajectories_loop_step) simp
qed

lemma simulated_trajectories_loop_all:
  "\<forall>u\<in>set ts.
      int (length (center_x u)) = n_simulation_steps config
    \<and> int (length (center_y u)) = n_simulation_steps config
    \<and> int (length (center_z u)) = n_simulation_steps config
    \<and> int (length (heading u)) = n_simulation_steps config
    \<and> object_id u \<in> set ids \<Longrightarrow>
   simulated_trajectories_loop config ids ts acc = Inr (acc @ map object_id ts)"
  using simulated_trajectories_loop_prefix [of ts config ids "[]" acc] by simp

lemma simulated_trajectories_loop_Inr:
  "simulated_trajectories_loop config ids ts acc = Inr r \<Longrightarrow>
   \<forall>u\<in>set ts.
      int (length (center_x u)) = n_simulation_steps config
    \<and> int (length (center_y u)) = n_simulation_steps config
    \<and> int (length (center_z u)) = n_simulation_steps config
    \<and> int (length (heading u)) = n_simulation_steps config
    \<and> object_id u \<in> set ids"
proof (induction ts arbitrary: acc)
  case Nil
  then show ?case by simp
next
  case (Cons u ts)
  from Cons.prems have ok:
    "int (length (center_x u)) = n_simulation_steps config
    \<and> int (length (center_y u)) = n_simulation_steps config
    \<and> int (length (center_z u)) = n_simulation_steps config
    \<and> int (length (heading u)) = n_simulation_steps config
    \<and> object_id u \<in> set ids"
    by (simp only: simulated_trajectories_loop_step split: if_splits) simp_all
  with Cons.prems have "simulated_trajectories_loop config ids ts (acc @ [object_id u]) = Inr r"
    by (simp only: simulated_trajectories_loop_step) simp
  with Cons.IH have "\<forall>u\<in>set ts.
      int (length (center_x u)) = n_simulation_steps config
    \<and> int (length (center_y u)) = n_simulation_steps config
    \<and> int (length (center_z u)) = n_simulation_steps config
    \<and> int (length (heading u)) = n_simulation_steps config
    \<and> object_id u \<in> set ids" by blast
  with ok show ?case by simp
qed

lemma simulated_trajectories_loop_Inl:
  "simulated_trajectories_loop config ids ts acc = Inl e \<Longrightarrow> \<exists>m. e = ValueError m"
proof (induction ts arbitrary: acc)
  case Nil
  then show ?case by simp
next
  case (Cons t ts)
  from Cons.prems show ?case
    by (simp only: simulated_trajectories_loop_step split: if_splits)
       (auto dest: Cons.IH)
qed

lemma validate_joint_scene_unfold:
  assumes "get_submission_config (Member p) = Inr config"
    and "get_sim_agent_ids scenario (Member p) = Inr sim_agent_ids"
  shows "validate_joint_scene joint_scene scenario (Member p) =
      (case simulated_trajectories_loop config sim_agent_ids
              (simulated_trajectories joint_scene) [] of
         Inl e \<Rightarrow> Inl e
       | Inr simulated_ids \<Rightarrow>
           if set sim_agent_ids - set simulated_ids \<noteq> {}
           then Inl (ValueError
                  (Sim_agents_missing (set sim_agent_ids - set simulated_ids) simulated_ids))
           else Inr ())"
  using assms by (simp add: validate_joint_scene_def Let_def split: sum.splits)

lemma validate_joint_scene_all_pass:
  assumes config: "get_submission_config (Member p) = Inr config"
    and ids: "get_sim_agent_ids scenario (Member p) = Inr sim_agent_ids"
    and ok: "\<forall>t\<in>set (simulated_trajectories joint_scene).
            int (length (center_x t)) = n_simulation_steps config
          \<and> int (length (center_y t)) = n_simulation_steps config
          \<and> int (length (center_z t)) = n_simulation_steps config
          \<and> int (length (heading t)) = n_simulation_steps config
          \<and> object_id t \<in> set sim_agent_ids"
  shows "validate_joint_scene joint_scene scenario (Member p) =
      (if set sim_agent_ids - object_id ` set (simulated_trajectories joint_scene) \<noteq> {}
       then Inl (ValueError
              (Sim_agents_missing
                 (set sim_agent_ids - object_id ` set (simulated_trajectories joint_scene))
                 (map object_id (simulated_trajectories joint_scene))))
       else Inr ())"
proof -
  from ok have "simulated_trajectories_loop config sim_agent_ids
                  (simulated_trajectories joint_scene) [] =
                Inr (map object_id (simulated_trajectories joint_scene))"
    using simulated_trajectories_loop_all
            [of "simulated_trajectories joint_scene" config sim_agent_ids "[]"]
    by simp
  then show ?thesis by (simp add: validate_joint_scene_unfold [OF config ids])
qed

lemma validate_joint_scene_first_failure:
  assumes config: "get_submission_config (Member p) = Inr config"
    and ids: "get_sim_agent_ids scenario (Member p) = Inr sim_agent_ids"
    and split: "simulated_trajectories joint_scene = pre @ t # post"
    and pre: "\<forall>u\<in>set pre.
            int (length (center_x u)) = n_simulation_steps config
          \<and> int (length (center_y u)) = n_simulation_steps config
          \<and> int (length (center_z u)) = n_simulation_steps config
          \<and> int (length (heading u)) = n_simulation_steps config
          \<and> object_id u \<in> set sim_agent_ids"
    and bad: "\<not> (int (length (center_x t)) = n_simulation_steps config
          \<and> int (length (center_y t)) = n_simulation_steps config
          \<and> int (length (center_z t)) = n_simulation_steps config
          \<and> int (length (heading t)) = n_simulation_steps config
          \<and> object_id t \<in> set sim_agent_ids)"
  shows "validate_joint_scene joint_scene scenario (Member p) =
           Inl (ValueError
             (if int (length (center_x t)) \<noteq> n_simulation_steps config
              then Invalid_tensor_length ''center_x'' (int (length (center_x t)))
                     (n_simulation_steps config)
              else if int (length (center_y t)) \<noteq> n_simulation_steps config
              then Invalid_tensor_length ''center_y'' (int (length (center_y t)))
                     (n_simulation_steps config)
              else if int (length (center_z t)) \<noteq> n_simulation_steps config
              then Invalid_tensor_length ''center_z'' (int (length (center_z t)))
                     (n_simulation_steps config)
              else if int (length (heading t)) \<noteq> n_simulation_steps config
              then Invalid_tensor_length ''heading'' (int (length (heading t)))
                     (n_simulation_steps config)
              else Not_a_sim_agent (object_id t)))"
proof -
  have "simulated_trajectories_loop config sim_agent_ids
          (simulated_trajectories joint_scene) [] =
        simulated_trajectories_loop config sim_agent_ids (t # post) ([] @ map object_id pre)"
    unfolding split using pre by (rule simulated_trajectories_loop_prefix)
  with bad show ?thesis
    by (simp only: validate_joint_scene_unfold [OF config ids]
          simulated_trajectories_loop_step)
       (simp split: if_splits)
qed

lemma validate_joint_scene_Inr_iff:
  assumes config: "get_submission_config (Member p) = Inr config"
    and ids: "get_sim_agent_ids scenario (Member p) = Inr sim_agent_ids"
  shows "validate_joint_scene joint_scene scenario (Member p) = Inr () \<longleftrightarrow>
        (\<forall>t\<in>set (simulated_trajectories joint_scene).
            int (length (center_x t)) = n_simulation_steps config
          \<and> int (length (center_y t)) = n_simulation_steps config
          \<and> int (length (center_z t)) = n_simulation_steps config
          \<and> int (length (heading t)) = n_simulation_steps config
          \<and> object_id t \<in> set sim_agent_ids)
        \<and> set sim_agent_ids \<subseteq> object_id ` set (simulated_trajectories joint_scene)"
    (is "?v = Inr () \<longleftrightarrow> ?all \<and> ?covered")
proof
  assume v: "?v = Inr ()"
  then obtain r where "simulated_trajectories_loop config sim_agent_ids
                         (simulated_trajectories joint_scene) [] = Inr r"
    by (auto simp: validate_joint_scene_unfold [OF config ids] split: sum.splits)
  then have ok: ?all by (rule simulated_trajectories_loop_Inr)
  from validate_joint_scene_all_pass [OF config ids ok] v
  have "set sim_agent_ids - object_id ` set (simulated_trajectories joint_scene) = {}"
    by (simp split: if_splits)
  with ok show "?all \<and> ?covered" by blast
next
  assume "?all \<and> ?covered"
  then have ok: ?all
    and "set sim_agent_ids - object_id ` set (simulated_trajectories joint_scene) = {}"
    by blast+
  with validate_joint_scene_all_pass [OF config ids ok] show "?v = Inr ()" by simp
qed

lemma validate_joint_scene_Inl:
  assumes ids: "get_sim_agent_ids scenario challenge_type = Inr sim_agent_ids"
    and v: "validate_joint_scene joint_scene scenario challenge_type = Inl e"
  shows "\<exists>m. e = ValueError m"
  using assms
  by (auto simp: validate_joint_scene_def Let_def get_submission_config_def
        split: sum.splits if_splits dest: simulated_trajectories_loop_Inl)

lemma example_joint_scene_valid:
  "validate_joint_scene example_joint_scene example_scenario (Member SIM_AGENTS) = Inr ()"
  by (simp add: validate_joint_scene_Inr_iff
        [OF get_submission_config_SIM_AGENTS example_scenario_sim_agent_ids])
     (simp add: example_defs SIM_AGENTS_SUBMISSION_CONFIG_def)

text \<open>
  Claim C1. Where \<^verbatim>\<open>get_sim_agent_ids\<close> returns the sim agent ids of the scenario,
  \<^verbatim>\<open>validate_joint_scene\<close> returns without an exception if and only if the four
  fields of every trajectory have exactly \<^verbatim>\<open>n_simulation_steps\<close> entries, every
  \<^verbatim>\<open>object_id\<close> is a sim agent id, and every sim agent id is the \<^verbatim>\<open>object_id\<close>
  of some trajectory. The first trajectory that fails a check decides the exception:
  the first of its fields \<^verbatim>\<open>center_x\<close>, \<^verbatim>\<open>center_y\<close>, \<^verbatim>\<open>center_z\<close>,
  \<^verbatim>\<open>heading\<close> with another length, and otherwise its unknown object id. When every
  trajectory passes and sim agents are missing, the exception carries the missing ids
  and the list of simulated ids.
\<close>

theorem validate_joint_scene_succeeds_iff:
  assumes config: "get_submission_config (Member p) = Inr config"
    and ids: "get_sim_agent_ids scenario (Member p) = Inr sim_agent_ids"
  shows
    "(validate_joint_scene joint_scene scenario (Member p) = Inr () \<longleftrightarrow>
        (\<forall>t\<in>set (simulated_trajectories joint_scene).
            int (length (center_x t)) = n_simulation_steps config
          \<and> int (length (center_y t)) = n_simulation_steps config
          \<and> int (length (center_z t)) = n_simulation_steps config
          \<and> int (length (heading t)) = n_simulation_steps config
          \<and> object_id t \<in> set sim_agent_ids)
        \<and> set sim_agent_ids \<subseteq> object_id ` set (simulated_trajectories joint_scene))
   \<and> (\<forall>pre t post.
         simulated_trajectories joint_scene = pre @ t # post \<longrightarrow>
         (\<forall>u\<in>set pre.
            int (length (center_x u)) = n_simulation_steps config
          \<and> int (length (center_y u)) = n_simulation_steps config
          \<and> int (length (center_z u)) = n_simulation_steps config
          \<and> int (length (heading u)) = n_simulation_steps config
          \<and> object_id u \<in> set sim_agent_ids) \<longrightarrow>
         \<not> (int (length (center_x t)) = n_simulation_steps config
          \<and> int (length (center_y t)) = n_simulation_steps config
          \<and> int (length (center_z t)) = n_simulation_steps config
          \<and> int (length (heading t)) = n_simulation_steps config
          \<and> object_id t \<in> set sim_agent_ids) \<longrightarrow>
         validate_joint_scene joint_scene scenario (Member p) =
           Inl (ValueError
             (if int (length (center_x t)) \<noteq> n_simulation_steps config
              then Invalid_tensor_length ''center_x'' (int (length (center_x t)))
                     (n_simulation_steps config)
              else if int (length (center_y t)) \<noteq> n_simulation_steps config
              then Invalid_tensor_length ''center_y'' (int (length (center_y t)))
                     (n_simulation_steps config)
              else if int (length (center_z t)) \<noteq> n_simulation_steps config
              then Invalid_tensor_length ''center_z'' (int (length (center_z t)))
                     (n_simulation_steps config)
              else if int (length (heading t)) \<noteq> n_simulation_steps config
              then Invalid_tensor_length ''heading'' (int (length (heading t)))
                     (n_simulation_steps config)
              else Not_a_sim_agent (object_id t))))
   \<and> ((\<forall>t\<in>set (simulated_trajectories joint_scene).
            int (length (center_x t)) = n_simulation_steps config
          \<and> int (length (center_y t)) = n_simulation_steps config
          \<and> int (length (center_z t)) = n_simulation_steps config
          \<and> int (length (heading t)) = n_simulation_steps config
          \<and> object_id t \<in> set sim_agent_ids) \<longrightarrow>
        \<not> set sim_agent_ids \<subseteq> object_id ` set (simulated_trajectories joint_scene) \<longrightarrow>
        validate_joint_scene joint_scene scenario (Member p) =
          Inl (ValueError
            (Sim_agents_missing
               (set sim_agent_ids - object_id ` set (simulated_trajectories joint_scene))
               (map object_id (simulated_trajectories joint_scene)))))"
proof (intro conjI allI impI)
  show "validate_joint_scene joint_scene scenario (Member p) = Inr () \<longleftrightarrow>
        (\<forall>t\<in>set (simulated_trajectories joint_scene).
            int (length (center_x t)) = n_simulation_steps config
          \<and> int (length (center_y t)) = n_simulation_steps config
          \<and> int (length (center_z t)) = n_simulation_steps config
          \<and> int (length (heading t)) = n_simulation_steps config
          \<and> object_id t \<in> set sim_agent_ids)
        \<and> set sim_agent_ids \<subseteq> object_id ` set (simulated_trajectories joint_scene)"
    using config ids by (rule validate_joint_scene_Inr_iff)
next
  fix pre t post
  assume "simulated_trajectories joint_scene = pre @ t # post"
    and "\<forall>u\<in>set pre.
            int (length (center_x u)) = n_simulation_steps config
          \<and> int (length (center_y u)) = n_simulation_steps config
          \<and> int (length (center_z u)) = n_simulation_steps config
          \<and> int (length (heading u)) = n_simulation_steps config
          \<and> object_id u \<in> set sim_agent_ids"
    and "\<not> (int (length (center_x t)) = n_simulation_steps config
          \<and> int (length (center_y t)) = n_simulation_steps config
          \<and> int (length (center_z t)) = n_simulation_steps config
          \<and> int (length (heading t)) = n_simulation_steps config
          \<and> object_id t \<in> set sim_agent_ids)"
  with config ids
  show "validate_joint_scene joint_scene scenario (Member p) =
           Inl (ValueError
             (if int (length (center_x t)) \<noteq> n_simulation_steps config
              then Invalid_tensor_length ''center_x'' (int (length (center_x t)))
                     (n_simulation_steps config)
              else if int (length (center_y t)) \<noteq> n_simulation_steps config
              then Invalid_tensor_length ''center_y'' (int (length (center_y t)))
                     (n_simulation_steps config)
              else if int (length (center_z t)) \<noteq> n_simulation_steps config
              then Invalid_tensor_length ''center_z'' (int (length (center_z t)))
                     (n_simulation_steps config)
              else if int (length (heading t)) \<noteq> n_simulation_steps config
              then Invalid_tensor_length ''heading'' (int (length (heading t)))
                     (n_simulation_steps config)
              else Not_a_sim_agent (object_id t)))"
    by (rule validate_joint_scene_first_failure)
next
  assume ok: "\<forall>t\<in>set (simulated_trajectories joint_scene).
            int (length (center_x t)) = n_simulation_steps config
          \<and> int (length (center_y t)) = n_simulation_steps config
          \<and> int (length (center_z t)) = n_simulation_steps config
          \<and> int (length (heading t)) = n_simulation_steps config
          \<and> object_id t \<in> set sim_agent_ids"
    and "\<not> set sim_agent_ids \<subseteq> object_id ` set (simulated_trajectories joint_scene)"
  then have "set sim_agent_ids - object_id ` set (simulated_trajectories joint_scene) \<noteq> {}"
    by blast
  with validate_joint_scene_all_pass [OF config ids ok]
  show "validate_joint_scene joint_scene scenario (Member p) =
          Inl (ValueError
            (Sim_agents_missing
               (set sim_agent_ids - object_id ` set (simulated_trajectories joint_scene))
               (map object_id (simulated_trajectories joint_scene))))"
    by simp
qed

theorem validate_joint_scene_succeeds_iff_witness:
  "get_submission_config (Member SIM_AGENTS) = Inr SIM_AGENTS_SUBMISSION_CONFIG
   \<and> get_sim_agent_ids example_scenario (Member SIM_AGENTS) = Inr [7, 3]
   \<and> validate_joint_scene example_joint_scene example_scenario (Member SIM_AGENTS) = Inr ()
   \<and> validate_joint_scene example_joint_scene_short_field example_scenario (Member SIM_AGENTS)
       = Inl (ValueError (Invalid_tensor_length ''center_y'' 79 80))
   \<and> validate_joint_scene example_joint_scene_missing example_scenario (Member SIM_AGENTS)
       = Inl (ValueError (Sim_agents_missing {3} [7]))"
proof -
  note config = get_submission_config_SIM_AGENTS
  note ids = example_scenario_sim_agent_ids [of SIM_AGENTS]
  note inst = validate_joint_scene_succeeds_iff [OF config ids]
  from inst [of example_joint_scene, THEN conjunct1]
  have a: "validate_joint_scene example_joint_scene example_scenario (Member SIM_AGENTS)
             = Inr ()"
    by (simp add: example_defs SIM_AGENTS_SUBMISSION_CONFIG_def)
  from inst [of example_joint_scene_short_field, THEN conjunct2, THEN conjunct1, rule_format,
         where pre = "[example_trajectory 7 80]"
           and t = "(example_trajectory 3 80)\<lparr>center_y := replicate 79 0\<rparr>"
           and post = "[example_trajectory 9 80]"]
  have b: "validate_joint_scene example_joint_scene_short_field example_scenario
             (Member SIM_AGENTS)
           = Inl (ValueError (Invalid_tensor_length ''center_y'' 79 80))"
    by (simp add: example_defs SIM_AGENTS_SUBMISSION_CONFIG_def)
  from inst [of example_joint_scene_missing, THEN conjunct2, THEN conjunct2]
  have c: "validate_joint_scene example_joint_scene_missing example_scenario
             (Member SIM_AGENTS)
           = Inl (ValueError (Sim_agents_missing {3} [7]))"
    by (simp add: example_defs SIM_AGENTS_SUBMISSION_CONFIG_def insert_Diff_if)
  from config ids a b c show ?thesis by blast
qed

text \<open>
  Claim C9. \<^verbatim>\<open>validate_joint_scene\<close> has no check for a repeated \<^verbatim>\<open>object_id\<close>:
  a joint scene in which an id occurs in two or more trajectories validates when every
  trajectory has fields of the right length and a sim agent id, and every sim agent id
  occurs. Whether a scene validates depends on the set of its trajectories only, not on
  how often each occurs.
\<close>

theorem validate_joint_scene_tolerates_duplicates:
  assumes config: "get_submission_config (Member p) = Inr config"
    and ids: "get_sim_agent_ids scenario (Member p) = Inr sim_agent_ids"
  shows
    "((\<forall>t\<in>set (simulated_trajectories joint_scene).
            int (length (center_x t)) = n_simulation_steps config
          \<and> int (length (center_y t)) = n_simulation_steps config
          \<and> int (length (center_z t)) = n_simulation_steps config
          \<and> int (length (heading t)) = n_simulation_steps config
          \<and> object_id t \<in> set sim_agent_ids)
      \<and> set sim_agent_ids \<subseteq> object_id ` set (simulated_trajectories joint_scene)
      \<and> \<not> distinct (map object_id (simulated_trajectories joint_scene))
      \<longrightarrow> validate_joint_scene joint_scene scenario (Member p) = Inr ())
   \<and> (validate_joint_scene joint_scene scenario (Member p) = Inr ()
      \<and> set (simulated_trajectories joint_scene') = set (simulated_trajectories joint_scene)
      \<longrightarrow> validate_joint_scene joint_scene' scenario (Member p) = Inr ())"
  by (simp add: validate_joint_scene_Inr_iff [OF config ids])

theorem validate_joint_scene_tolerates_duplicates_witness:
  "get_submission_config (Member SIM_AGENTS) = Inr SIM_AGENTS_SUBMISSION_CONFIG
   \<and> get_sim_agent_ids example_scenario (Member SIM_AGENTS) = Inr [7, 3]
   \<and> map object_id (simulated_trajectories example_joint_scene_duplicate) = [7, 3, 7]
   \<and> \<not> distinct (map object_id (simulated_trajectories example_joint_scene_duplicate))
   \<and> validate_joint_scene example_joint_scene_duplicate example_scenario (Member SIM_AGENTS)
       = Inr ()"
proof -
  note config = get_submission_config_SIM_AGENTS
  note ids = example_scenario_sim_agent_ids [of SIM_AGENTS]
  have dup: "map object_id (simulated_trajectories example_joint_scene_duplicate) = [7, 3, 7]"
    by (simp add: example_defs)
  from validate_joint_scene_tolerates_duplicates
         [OF config ids, of example_joint_scene_duplicate, THEN conjunct1]
  have "validate_joint_scene example_joint_scene_duplicate example_scenario
          (Member SIM_AGENTS) = Inr ()"
    by (simp add: example_defs SIM_AGENTS_SUBMISSION_CONFIG_def)
  with config ids dup show ?thesis by simp
qed

section \<open>Validation of scenario rollouts\<close>

lemma joint_scenes_loop_prefix:
  "\<forall>u\<in>set pre. validate_joint_scene u scenario challenge_type = Inr () \<Longrightarrow>
   joint_scenes_loop (pre @ rest) scenario challenge_type =
     joint_scenes_loop rest scenario challenge_type"
  by (induction pre) simp_all

lemma joint_scenes_loop_all:
  "\<forall>u\<in>set scenes. validate_joint_scene u scenario challenge_type = Inr () \<Longrightarrow>
   joint_scenes_loop scenes scenario challenge_type = Inr ()"
  using joint_scenes_loop_prefix [of scenes scenario challenge_type "[]"] by simp

lemma joint_scenes_loop_Inr:
  "joint_scenes_loop scenes scenario challenge_type = Inr r \<Longrightarrow>
   \<forall>u\<in>set scenes. validate_joint_scene u scenario challenge_type = Inr ()"
  by (induction scenes) (auto split: sum.splits)

lemma joint_scenes_loop_first_failure:
  "\<forall>u\<in>set pre. validate_joint_scene u scenario challenge_type = Inr () \<Longrightarrow>
   validate_joint_scene joint_scene scenario challenge_type = Inl e \<Longrightarrow>
   joint_scenes_loop (pre @ joint_scene # post) scenario challenge_type = Inl e"
  by (simp add: joint_scenes_loop_prefix)

lemma joint_scenes_loop_Inl:
  "joint_scenes_loop scenes scenario challenge_type = Inl e \<Longrightarrow>
   \<exists>u\<in>set scenes. validate_joint_scene u scenario challenge_type = Inl e"
  by (induction scenes) (auto split: sum.splits)

lemma validate_scenario_rollouts_Inl:
  assumes ids: "get_sim_agent_ids scenario challenge_type = Inr sim_agent_ids"
    and v: "validate_scenario_rollouts scenario_rollouts scenario challenge_type = Inl e"
  shows "\<exists>m. e = ValueError m"
proof -
  from v consider
      (config) "get_submission_config challenge_type = Inl e"
    | (direct) m where "e = ValueError m"
    | (loop) "joint_scenes_loop (joint_scenes scenario_rollouts) scenario challenge_type = Inl e"
    by (auto simp: validate_scenario_rollouts_def split: sum.splits if_splits)
  then show ?thesis
  proof cases
    case config
    then show ?thesis
      by (auto simp: get_submission_config_def split: if_splits)
  next
    case direct
    then show ?thesis by blast
  next
    case loop
    then obtain u where "validate_joint_scene u scenario challenge_type = Inl e"
      by (blast dest: joint_scenes_loop_Inl)
    with ids show ?thesis by (rule validate_joint_scene_Inl)
  qed
qed

lemma example_joint_scene_missing_invalid:
  "validate_joint_scene example_joint_scene_missing example_scenario (Member SIM_AGENTS)
     = Inl (ValueError (Sim_agents_missing {3} [7]))"
proof -
  have "\<forall>t\<in>set (simulated_trajectories example_joint_scene_missing).
            int (length (center_x t)) = n_simulation_steps SIM_AGENTS_SUBMISSION_CONFIG
          \<and> int (length (center_y t)) = n_simulation_steps SIM_AGENTS_SUBMISSION_CONFIG
          \<and> int (length (center_z t)) = n_simulation_steps SIM_AGENTS_SUBMISSION_CONFIG
          \<and> int (length (heading t)) = n_simulation_steps SIM_AGENTS_SUBMISSION_CONFIG
          \<and> object_id t \<in> set [7, 3]"
    by (simp add: example_defs SIM_AGENTS_SUBMISSION_CONFIG_def)
  from validate_joint_scene_all_pass
         [OF get_submission_config_SIM_AGENTS example_scenario_sim_agent_ids this]
  show ?thesis by (simp add: example_defs insert_Diff_if)
qed

text \<open>
  Claim C2. For each of the two challenge types, \<^verbatim>\<open>validate_scenario_rollouts\<close>
  returns without an exception if and only if \<^verbatim>\<open>scenario_id\<close> is set, the number
  of joint scenes is exactly \<^verbatim>\<open>n_rollouts\<close> (32), and \<^verbatim>\<open>validate_joint_scene\<close>
  returns without an exception on every joint scene. A missing \<^verbatim>\<open>scenario_id\<close>
  raises the missing-field error; otherwise another number of joint scenes raises the
  error with the actual and the expected number; otherwise the exception of the first
  joint scene that fails is the exception of the call.
\<close>

theorem validate_scenario_rollouts_succeeds_iff:
  assumes config: "get_submission_config (Member p) = Inr config"
  shows
    "(validate_scenario_rollouts scenario_rollouts scenario (Member p) = Inr () \<longleftrightarrow>
        scenario_id scenario_rollouts \<noteq> None
      \<and> int (length (joint_scenes scenario_rollouts)) = n_rollouts config
      \<and> (\<forall>joint_scene\<in>set (joint_scenes scenario_rollouts).
            validate_joint_scene joint_scene scenario (Member p) = Inr ()))
   \<and> (scenario_id scenario_rollouts = None \<longrightarrow>
        validate_scenario_rollouts scenario_rollouts scenario (Member p) =
          Inl (ValueError Missing_scenario_id_field))
   \<and> (scenario_id scenario_rollouts \<noteq> None \<longrightarrow>
      int (length (joint_scenes scenario_rollouts)) \<noteq> n_rollouts config \<longrightarrow>
        validate_scenario_rollouts scenario_rollouts scenario (Member p) =
          Inl (ValueError (Incorrect_number_of_parallel_simulations
                 (int (length (joint_scenes scenario_rollouts))) (n_rollouts config))))
   \<and> (\<forall>pre joint_scene post e.
        scenario_id scenario_rollouts \<noteq> None \<longrightarrow>
        int (length (joint_scenes scenario_rollouts)) = n_rollouts config \<longrightarrow>
        joint_scenes scenario_rollouts = pre @ joint_scene # post \<longrightarrow>
        (\<forall>u\<in>set pre. validate_joint_scene u scenario (Member p) = Inr ()) \<longrightarrow>
        validate_joint_scene joint_scene scenario (Member p) = Inl e \<longrightarrow>
        validate_scenario_rollouts scenario_rollouts scenario (Member p) = Inl e)
   \<and> n_rollouts config = 32"
proof -
  let ?v = "validate_scenario_rollouts scenario_rollouts scenario (Member p)"
  let ?scenes = "joint_scenes scenario_rollouts"
  have unfold: "?v =
      (if scenario_id scenario_rollouts = None
       then Inl (ValueError Missing_scenario_id_field)
       else if int (length ?scenes) \<noteq> n_rollouts config
       then Inl (ValueError (Incorrect_number_of_parallel_simulations
                   (int (length ?scenes)) (n_rollouts config)))
       else joint_scenes_loop ?scenes scenario (Member p))"
    using config by (simp add: validate_scenario_rollouts_def)
  have iff: "?v = Inr () \<longleftrightarrow>
        scenario_id scenario_rollouts \<noteq> None
      \<and> int (length ?scenes) = n_rollouts config
      \<and> (\<forall>joint_scene\<in>set ?scenes.
            validate_joint_scene joint_scene scenario (Member p) = Inr ())"
    unfolding unfold
    using joint_scenes_loop_all [of ?scenes scenario "Member p"]
      joint_scenes_loop_Inr [of ?scenes scenario "Member p" "()"]
    by (auto split: if_splits)
  have first: "?v = Inl e"
    if "scenario_id scenario_rollouts \<noteq> None"
      and "int (length ?scenes) = n_rollouts config"
      and "?scenes = pre @ joint_scene # post"
      and "\<forall>u\<in>set pre. validate_joint_scene u scenario (Member p) = Inr ()"
      and "validate_joint_scene joint_scene scenario (Member p) = Inl e"
    for pre joint_scene post e
  proof -
    from that(1,2) have "?v = joint_scenes_loop ?scenes scenario (Member p)"
      by (auto simp: unfold)
    also have "\<dots> = Inl e"
      unfolding that(3) using that(4,5) by (rule joint_scenes_loop_first_failure)
    finally show ?thesis .
  qed
  have no_id: "?v = Inl (ValueError Missing_scenario_id_field)"
    if "scenario_id scenario_rollouts = None"
    using that by (simp add: unfold)
  have count: "?v = Inl (ValueError (Incorrect_number_of_parallel_simulations
                   (int (length ?scenes)) (n_rollouts config)))"
    if "scenario_id scenario_rollouts \<noteq> None" and "int (length ?scenes) \<noteq> n_rollouts config"
    using that by (auto simp: unfold)
  have n: "n_rollouts config = 32"
    using config by (rule get_submission_config_n_rollouts)
  from iff first no_id count n show ?thesis by blast
qed
theorem validate_scenario_rollouts_succeeds_iff_witness:
  "get_submission_config (Member SIM_AGENTS) = Inr SIM_AGENTS_SUBMISSION_CONFIG
   \<and> validate_scenario_rollouts (example_rollouts 32) example_scenario (Member SIM_AGENTS)
       = Inr ()
   \<and> validate_scenario_rollouts ((example_rollouts 32)\<lparr>scenario_id := None\<rparr>)
         example_scenario (Member SIM_AGENTS)
       = Inl (ValueError Missing_scenario_id_field)
   \<and> validate_scenario_rollouts (example_rollouts 31) example_scenario (Member SIM_AGENTS)
       = Inl (ValueError (Incorrect_number_of_parallel_simulations 31 32))
   \<and> validate_scenario_rollouts
         \<lparr>scenario_id = Some ''abc'',
          joint_scenes = replicate 30 example_joint_scene
            @ example_joint_scene_missing # [example_joint_scene_short_field]\<rparr>
         example_scenario (Member SIM_AGENTS)
       = Inl (ValueError (Sim_agents_missing {3} [7]))"
proof -
  note config = get_submission_config_SIM_AGENTS
  note inst = validate_scenario_rollouts_succeeds_iff [OF config]
  have n: "n_rollouts SIM_AGENTS_SUBMISSION_CONFIG = 32"
    by (simp add: SIM_AGENTS_SUBMISSION_CONFIG_def)
  from inst [of "example_rollouts 32" example_scenario, THEN conjunct1]
  have a: "validate_scenario_rollouts (example_rollouts 32) example_scenario
             (Member SIM_AGENTS) = Inr ()"
    by (simp add: example_rollouts_def n example_joint_scene_valid)
  from inst [of "(example_rollouts 32)\<lparr>scenario_id := None\<rparr>" example_scenario,
         THEN conjunct2, THEN conjunct1]
  have b: "validate_scenario_rollouts ((example_rollouts 32)\<lparr>scenario_id := None\<rparr>)
             example_scenario (Member SIM_AGENTS)
           = Inl (ValueError Missing_scenario_id_field)"
    by (simp add: example_rollouts_def)
  from inst [of "example_rollouts 31" example_scenario,
         THEN conjunct2, THEN conjunct2, THEN conjunct1]
  have c: "validate_scenario_rollouts (example_rollouts 31) example_scenario
             (Member SIM_AGENTS)
           = Inl (ValueError (Incorrect_number_of_parallel_simulations 31 32))"
    by (simp add: example_rollouts_def n)
  from inst [of "\<lparr>scenario_id = Some ''abc'',
          joint_scenes = replicate 30 example_joint_scene
            @ example_joint_scene_missing # [example_joint_scene_short_field]\<rparr>"
         example_scenario,
         THEN conjunct2, THEN conjunct2, THEN conjunct2, THEN conjunct1, rule_format,
         where pre = "replicate 30 example_joint_scene"
           and joint_scene = example_joint_scene_missing
           and post = "[example_joint_scene_short_field]"
           and e = "ValueError (Sim_agents_missing {3} [7])"]
  have d: "validate_scenario_rollouts
         \<lparr>scenario_id = Some ''abc'',
          joint_scenes = replicate 30 example_joint_scene
            @ example_joint_scene_missing # [example_joint_scene_short_field]\<rparr>
         example_scenario (Member SIM_AGENTS)
       = Inl (ValueError (Sim_agents_missing {3} [7]))"
    by (simp add: n example_joint_scene_valid example_joint_scene_missing_invalid)
  from config a b c d show ?thesis by blast
qed

section \<open>Indexing the states of a track\<close>

text \<open>
  Claim C10. With the config of either challenge type, \<^verbatim>\<open>is_valid_sim_agent\<close>
  returns the valid flag of the state at \<^verbatim>\<open>current_time_index\<close> for a track with
  more states than that index, and raises \<^verbatim>\<open>IndexError\<close> on the states for a track
  with fewer. For a scenario in which every track has more states than the index,
  \<^verbatim>\<open>get_sim_agent_ids\<close> returns, \<^verbatim>\<open>get_evaluation_sim_agent_ids\<close> does not
  raise \<^verbatim>\<open>IndexError\<close> on the states, and the two validation functions raise nothing
  but \<^verbatim>\<open>ValueError\<close>; for a scenario with a shorter track \<^verbatim>\<open>get_sim_agent_ids\<close>
  raises \<^verbatim>\<open>IndexError\<close> on the states.
\<close>

theorem is_valid_sim_agent_index_in_range:
  assumes config: "get_submission_config (Member p) = Inr config"
  shows
    "(current_time_index config < int (length (states track)) \<longrightarrow>
        is_valid_sim_agent config track =
          Inr (valid (states track ! nat (current_time_index config))))
   \<and> (\<not> current_time_index config < int (length (states track)) \<longrightarrow>
        is_valid_sim_agent config track = Inl (IndexError ''states''))
   \<and> ((\<forall>track\<in>set (tracks scenario).
          current_time_index config < int (length (states track))) \<longrightarrow>
        (\<exists>ids. get_sim_agent_ids scenario (Member p) = Inr ids)
      \<and> get_evaluation_sim_agent_ids scenario (Member p) \<noteq> Inl (IndexError ''states'')
      \<and> (\<forall>e. validate_joint_scene joint_scene scenario (Member p) = Inl e \<longrightarrow>
              (\<exists>m. e = ValueError m))
      \<and> (\<forall>e. validate_scenario_rollouts scenario_rollouts scenario (Member p) = Inl e \<longrightarrow>
              (\<exists>m. e = ValueError m)))
   \<and> ((\<exists>track\<in>set (tracks scenario).
          \<not> current_time_index config < int (length (states track))) \<longrightarrow>
        get_sim_agent_ids scenario (Member p) = Inl (IndexError ''states''))"
proof -
  have cti: "current_time_index config = 10"
    using config by (rule get_submission_config_Member)
  have one: "is_valid_sim_agent config track =
          Inr (valid (states track ! nat (current_time_index config)))"
    if "current_time_index config < int (length (states track))"
    using that cti by (simp add: is_valid_sim_agent_in_range)
  have short: "is_valid_sim_agent config track = Inl (IndexError ''states'')"
    if "\<not> current_time_index config < int (length (states track))"
    using that by (simp add: is_valid_sim_agent_beyond)
  have beyond: "get_sim_agent_ids scenario (Member p) = Inl (IndexError ''states'')"
    if "\<exists>track\<in>set (tracks scenario).
          \<not> current_time_index config < int (length (states track))"
  proof -
    from that cti have "\<exists>track\<in>set (tracks scenario). int (length (states track)) \<le> 10"
      by (simp add: not_less)
    then show ?thesis by (rule get_sim_agent_ids_beyond)
  qed
  have within:
    "(\<exists>ids. get_sim_agent_ids scenario (Member p) = Inr ids)
      \<and> get_evaluation_sim_agent_ids scenario (Member p) \<noteq> Inl (IndexError ''states'')
      \<and> (\<forall>e. validate_joint_scene joint_scene scenario (Member p) = Inl e \<longrightarrow>
              (\<exists>m. e = ValueError m))
      \<and> (\<forall>e. validate_scenario_rollouts scenario_rollouts scenario (Member p) = Inl e \<longrightarrow>
              (\<exists>m. e = ValueError m))"
    if len: "\<forall>track\<in>set (tracks scenario).
          current_time_index config < int (length (states track))"
  proof -
    from len cti have "\<forall>track\<in>set (tracks scenario). 10 < int (length (states track))"
      by simp
    then obtain ids where ids: "get_sim_agent_ids scenario (Member p) = Inr ids"
      using get_sim_agent_ids_in_range by blast
    have ev: "get_evaluation_sim_agent_ids scenario (Member p) \<noteq> Inl (IndexError ''states'')"
    proof (cases p)
      case SIM_AGENTS
      then show ?thesis by (auto dest: get_evaluation_sim_agent_ids_Inl)
    next
      case SCENARIO_GEN
      with ids show ?thesis by (simp add: get_evaluation_sim_agent_ids_def)
    qed
    from ids ev show ?thesis
      by (blast dest: validate_joint_scene_Inl validate_scenario_rollouts_Inl)
  qed
  from one short within beyond show ?thesis by blast
qed

theorem is_valid_sim_agent_index_in_range_witness:
  "get_submission_config (Member SIM_AGENTS) = Inr SIM_AGENTS_SUBMISSION_CONFIG
   \<and> list_all
         (\<lambda>track. current_time_index SIM_AGENTS_SUBMISSION_CONFIG < int (length (states track)))
         (tracks example_scenario)
   \<and> is_valid_sim_agent SIM_AGENTS_SUBMISSION_CONFIG (example_track 7 True) = Inr True
   \<and> (\<exists>ids. get_sim_agent_ids example_scenario (Member SIM_AGENTS) = Inr ids)
   \<and> validate_joint_scene example_joint_scene example_scenario (Member SIM_AGENTS)
       \<noteq> Inl (IndexError ''states'')
   \<and> (\<exists>track\<in>set (tracks example_scenario_short_track).
         \<not> current_time_index SIM_AGENTS_SUBMISSION_CONFIG < int (length (states track)))
   \<and> is_valid_sim_agent SIM_AGENTS_SUBMISSION_CONFIG
         \<lparr>id' = 7, states = replicate 3 \<lparr>valid = True\<rparr>\<rparr> = Inl (IndexError ''states'')
   \<and> get_sim_agent_ids example_scenario_short_track (Member SIM_AGENTS)
       = Inl (IndexError ''states'')"
proof -
  note config = get_submission_config_SIM_AGENTS
  note inst = is_valid_sim_agent_index_in_range [OF config]
  have len: "\<forall>track\<in>set (tracks example_scenario).
         current_time_index SIM_AGENTS_SUBMISSION_CONFIG < int (length (states track))"
    by (simp add: example_defs SIM_AGENTS_SUBMISSION_CONFIG_def)
  have short: "\<exists>track\<in>set (tracks example_scenario_short_track).
         \<not> current_time_index SIM_AGENTS_SUBMISSION_CONFIG < int (length (states track))"
    by (simp add: example_defs SIM_AGENTS_SUBMISSION_CONFIG_def)
  from inst [where track = "example_track 7 True", THEN conjunct1]
  have a: "is_valid_sim_agent SIM_AGENTS_SUBMISSION_CONFIG (example_track 7 True) = Inr True"
    by (simp add: example_defs SIM_AGENTS_SUBMISSION_CONFIG_def nth_append)
  from inst [where track = "\<lparr>id' = 7, states = replicate 3 \<lparr>valid = True\<rparr>\<rparr>",
         THEN conjunct2, THEN conjunct1]
  have b: "is_valid_sim_agent SIM_AGENTS_SUBMISSION_CONFIG
         \<lparr>id' = 7, states = replicate 3 \<lparr>valid = True\<rparr>\<rparr> = Inl (IndexError ''states'')"
    by (simp add: SIM_AGENTS_SUBMISSION_CONFIG_def)
  from inst [where scenario = example_scenario and joint_scene = example_joint_scene,
         THEN conjunct2, THEN conjunct2, THEN conjunct1, THEN mp, OF len]
  have c: "(\<exists>ids. get_sim_agent_ids example_scenario (Member SIM_AGENTS) = Inr ids)
     \<and> validate_joint_scene example_joint_scene example_scenario (Member SIM_AGENTS)
         \<noteq> Inl (IndexError ''states'')"
    by blast
  from inst [where scenario = example_scenario_short_track,
         THEN conjunct2, THEN conjunct2, THEN conjunct2, THEN mp, OF short]
  have d: "get_sim_agent_ids example_scenario_short_track (Member SIM_AGENTS)
       = Inl (IndexError ''states'')" .
  from config len short a b c d show ?thesis
    unfolding list_all_iff by blast
qed

section \<open>The module's globals across calls\<close>

lemma get_submission_config_st_import:
  "get_submission_config_st challenge_type module_import =
     (get_submission_config challenge_type, module_import)"
  by (simp add: get_submission_config_st_def get_submission_config_def module_import_def)







lemma get_submission_config_st_frame:
  "snd (get_submission_config_st challenge_type g) = g"
  by (simp add: get_submission_config_st_def)

lemma get_sim_agent_ids_st_frame:
  "snd (get_sim_agent_ids_st scenario challenge_type g) = g"
  using get_submission_config_st_frame [of challenge_type g]
  by (auto simp: get_sim_agent_ids_st_def split: prod.splits sum.splits)

lemma get_evaluation_sim_agent_ids_st_frame:
  "snd (get_evaluation_sim_agent_ids_st scenario challenge_type g) = g"
  by (simp add: get_evaluation_sim_agent_ids_st_def get_sim_agent_ids_st_frame)

lemma validate_joint_scene_st_frame:
  "snd (validate_joint_scene_st joint_scene scenario challenge_type g) = g"
  using get_submission_config_st_frame [of challenge_type g]
    get_sim_agent_ids_st_frame [of scenario challenge_type g]
  by (auto simp: validate_joint_scene_st_def Let_def split: prod.splits sum.splits)

lemma joint_scenes_loop_st_frame:
  "snd (joint_scenes_loop_st scenes scenario challenge_type g) = g"
proof (induction scenes)
  case Nil
  then show ?case by simp
next
  case (Cons joint_scene scenes)
  then show ?case
    using validate_joint_scene_st_frame [of joint_scene scenario challenge_type g]
    by (auto split: prod.splits sum.splits)
qed

lemma validate_scenario_rollouts_st_frame:
  "snd (validate_scenario_rollouts_st scenario_rollouts scenario challenge_type g) = g"
  using get_submission_config_st_frame [of challenge_type g]
    joint_scenes_loop_st_frame [of "joint_scenes scenario_rollouts" scenario challenge_type g]
  by (auto simp: validate_scenario_rollouts_st_def split: prod.splits sum.splits)

lemma exec_frame: "snd (exec c g) = g"
proof (cases c)
  case (Call_get_submission_config challenge_type)
  then show ?thesis
    using get_submission_config_st_frame [of challenge_type g]
    by (auto split: prod.splits)
next
  case (Call_get_sim_agent_ids scenario challenge_type)
  then show ?thesis
    using get_sim_agent_ids_st_frame [of scenario challenge_type g]
    by (auto split: prod.splits)
next
  case (Call_get_evaluation_sim_agent_ids scenario challenge_type)
  then show ?thesis
    using get_evaluation_sim_agent_ids_st_frame [of scenario challenge_type g]
    by (auto split: prod.splits)
next
  case (Call_validate_joint_scene joint_scene scenario challenge_type)
  then show ?thesis
    using validate_joint_scene_st_frame [of joint_scene scenario challenge_type g]
    by (auto split: prod.splits)
next
  case (Call_validate_scenario_rollouts scenario_rollouts scenario challenge_type)
  then show ?thesis
    using validate_scenario_rollouts_st_frame [of scenario_rollouts scenario challenge_type g]
    by (auto split: prod.splits)
qed

lemma run_frame: "snd (run history g) = g"
proof (induction history arbitrary: g)
  case Nil
  then show ?case by simp
next
  case (Cons c history)
  obtain r where "exec c g = (r, g)"
    using exec_frame [of c g] by (cases "exec c g") simp
  with Cons [of g] show ?case by (auto split: prod.splits)
qed


text \<open>
  Claim C7. \<^verbatim>\<open>get_submission_config\<close> depends on the challenge type only: for
  \<^verbatim>\<open>SIM_AGENTS\<close> it returns the config with current time index 10, 80 simulation
  steps, 32 rollouts and a step duration of 0.1 seconds; for \<^verbatim>\<open>SCENARIO_GEN\<close> the
  config with 10, 91, 32 and 0.1; for any other object it raises the
  \<^verbatim>\<open>ValueError\<close> for an unknown challenge type; it returns nothing else. The step
  duration is the double nearest to one tenth: its value differs from 1/10 by less than
  half a unit in the last place, which is \<open>1 / 2 ^ 57\<close> for a double between 1/16
  and 1/8, so that no other double is as near.
  No call of the module changes the two module-level configs, whatever they hold; so
  after any list of calls since the import they are the two configs above, and the
  lookup in that state is the function of the challenge type alone.
\<close>

theorem get_submission_config_table:
  "get_submission_config (Member SIM_AGENTS) =
     Inr \<lparr>current_time_index = 10, n_simulation_steps = 80, n_rollouts = 32,
          step_duration_seconds = 0x3FB999999999999A\<rparr>
   \<and> get_submission_config (Member SCENARIO_GEN) =
     Inr \<lparr>current_time_index = 10, n_simulation_steps = 91, n_rollouts = 32,
          step_duration_seconds = 0x3FB999999999999A\<rparr>
   \<and> float64_value (step_duration_seconds SIM_AGENTS_SUBMISSION_CONFIG) =
       Some (3602879701896397 / 2 ^ 55)
   \<and> float64_value (step_duration_seconds SCENARIO_GEN_SUBMISSION_CONFIG) =
       Some (3602879701896397 / 2 ^ 55)
   \<and> \<bar>3602879701896397 / 2 ^ 55 - 1 / 10 :: rat\<bar> < 1 / 2 ^ 57
   \<and> get_submission_config (Non_member r) = Inl (ValueError (Unknown_challenge_type r))
   \<and> (get_submission_config challenge_type = Inr config
        \<longleftrightarrow> challenge_type = Member SIM_AGENTS \<and> config = SIM_AGENTS_SUBMISSION_CONFIG
          \<or> challenge_type = Member SCENARIO_GEN \<and> config = SCENARIO_GEN_SUBMISSION_CONFIG)
   \<and> snd (exec c g) = g
   \<and> snd (run history module_import) = module_import
   \<and> fst (get_submission_config_st challenge_type (snd (run history module_import))) =
       get_submission_config challenge_type"
proof -
  have table: "get_submission_config (Member SIM_AGENTS) =
     Inr \<lparr>current_time_index = 10, n_simulation_steps = 80, n_rollouts = 32,
          step_duration_seconds = 0x3FB999999999999A\<rparr>"
    "get_submission_config (Member SCENARIO_GEN) =
     Inr \<lparr>current_time_index = 10, n_simulation_steps = 91, n_rollouts = 32,
          step_duration_seconds = 0x3FB999999999999A\<rparr>"
    "get_submission_config (Non_member r) = Inl (ValueError (Unknown_challenge_type r))"
    by (simp_all add: get_submission_config_def SIM_AGENTS_SUBMISSION_CONFIG_def
          SCENARIO_GEN_SUBMISSION_CONFIG_def float_literal_0_1_def)
  have only: "get_submission_config challenge_type = Inr config
        \<longleftrightarrow> challenge_type = Member SIM_AGENTS \<and> config = SIM_AGENTS_SUBMISSION_CONFIG
          \<or> challenge_type = Member SCENARIO_GEN \<and> config = SCENARIO_GEN_SUBMISSION_CONFIG"
    by (auto simp: get_submission_config_def)
  have decode: "float64_value (step_duration_seconds SIM_AGENTS_SUBMISSION_CONFIG) =
       Some (3602879701896397 / 2 ^ 55)"
    "float64_value (step_duration_seconds SCENARIO_GEN_SUBMISSION_CONFIG) =
       Some (3602879701896397 / 2 ^ 55)"
    by (simp_all add: SIM_AGENTS_SUBMISSION_CONFIG_def SCENARIO_GEN_SUBMISSION_CONFIG_def
          float_literal_0_1_def float64_value_0_1)
  have near: "\<bar>3602879701896397 / 2 ^ 55 - 1 / 10 :: rat\<bar> < 1 / 2 ^ 57"
    by simp
  have frame: "snd (exec c g) = g"
    by (rule exec_frame)
  have kept: "snd (run history module_import) = module_import"
    by (rule run_frame)
  have lookup: "fst (get_submission_config_st challenge_type (snd (run history module_import))) =
       get_submission_config challenge_type"
    by (simp add: kept get_submission_config_st_import)
  from table only decode near frame kept lookup show ?thesis by blast
qed

theorem get_submission_config_table_witness:
  "fst (get_submission_config_st (Member SCENARIO_GEN)
     (snd (run [Call_validate_joint_scene example_joint_scene example_scenario
                  (Member SIM_AGENTS),
                Call_get_submission_config (Non_member ''None'')] module_import))) =
     Inr \<lparr>current_time_index = 10, n_simulation_steps = 91, n_rollouts = 32,
          step_duration_seconds = 0x3FB999999999999A\<rparr>
   \<and> float64_value (step_duration_seconds SIM_AGENTS_SUBMISSION_CONFIG) =
       Some (3602879701896397 / 2 ^ 55)"
proof -
  note inst = get_submission_config_table
    [where challenge_type = "Member SCENARIO_GEN"
       and history = "[Call_validate_joint_scene example_joint_scene example_scenario
                  (Member SIM_AGENTS),
                Call_get_submission_config (Non_member ''None'')]"]
  note lookup = inst [THEN conjunct2, THEN conjunct2, THEN conjunct2, THEN conjunct2,
    THEN conjunct2, THEN conjunct2, THEN conjunct2, THEN conjunct2, THEN conjunct2]
  note table = inst [THEN conjunct2, THEN conjunct1]
  note b = inst [THEN conjunct2, THEN conjunct2, THEN conjunct1]
  from lookup table have a: "fst (get_submission_config_st (Member SCENARIO_GEN)
     (snd (run [Call_validate_joint_scene example_joint_scene example_scenario
                  (Member SIM_AGENTS),
                Call_get_submission_config (Non_member ''None'')] module_import))) =
     Inr \<lparr>current_time_index = 10, n_simulation_steps = 91, n_rollouts = 32,
          step_duration_seconds = 0x3FB999999999999A\<rparr>"
    by (rule trans)
  from a b show ?thesis by (rule conjI)
qed

section \<open>Determinism\<close>



end
